theory Spec2Isabelle
  imports Main
begin

section \<open>Flask-HTTPAuth: Basic, Digest, Token and role authentication\<close>

text \<open>
  A shallow embedding of \<^verbatim>\<open>flask_httpauth.py\<close>. Every class of the module is an
  \<open>authenticator\<close> record tagged with its class; a method becomes a function that takes
  \<open>self\<close> first. The Flask request is a record that is passed explicitly, the session
  and the random source form a \<open>world\<close> that is threaded through the calls that use them,
  and every exception the module can raise is a value of \<open>error\<close>.
\<close>

subsection \<open>Python and library primitives\<close>

datatype error = ValueError | TypeError | AttributeError | KeyError

text \<open>
  Header strings reach the module as WSGI strings, whose code points are those of
  Latin-1, so a \<open>char\<close> is one code point. \<open>isspace\<close> is Python's notion of white space
  on that range and \<open>lower\<close> is \<^verbatim>\<open>str.lower\<close> on it.
\<close>

definition isspace :: "char \<Rightarrow> bool" where
  "isspace c =
     (let n = (of_char c :: nat)
      in (9 \<le> n \<and> n \<le> 13) \<or> (28 \<le> n \<and> n \<le> 32) \<or> n = 133 \<or> n = 160)"

definition lower_char :: "char \<Rightarrow> char" where
  "lower_char c =
     (let n = (of_char c :: nat)
      in if (65 \<le> n \<and> n \<le> 90) \<or> (192 \<le> n \<and> n \<le> 222 \<and> n \<noteq> 215)
         then char_of (n + 32) else c)"

definition lower :: "string \<Rightarrow> string" where
  "lower s = map lower_char s"

text \<open>
  \<^verbatim>\<open>s.split(None, 1)\<close>: leading white space is skipped, the first word is cut at the
  next white space, and what follows the white space after it (if anything) is the
  second element, kept to the end of the string.
\<close>

definition split_None_1 :: "string \<Rightarrow> string list" where
  "split_None_1 s =
     (let s1 = dropWhile isspace s
      in if s1 = [] then []
         else let w = takeWhile (\<lambda>c. \<not> isspace c) s1;
                  r = dropWhile isspace (dropWhile (\<lambda>c. \<not> isspace c) s1)
              in if r = [] then [w] else [w, r])"

text \<open>
  \<^verbatim>\<open>a, b = xs\<close>: unpacking into two names raises ValueError unless there are
  exactly two elements.
\<close>

fun unpack2 :: "'a list \<Rightarrow> error + ('a \<times> 'a)" where
  "unpack2 [a, b] = Inr (a, b)"
| "unpack2 _ = Inl ValueError"

text \<open>
  Modelled from the spec: \<^verbatim>\<open>werkzeug.security.safe_str_cmp\<close> is imported, not defined,
  by the module; the spec calls it a constant-time string comparison, so its value is
  equality of the two strings.
\<close>

definition safe_str_cmp :: "string \<Rightarrow> string \<Rightarrow> bool" where
  "safe_str_cmp a b = (a = b)"

text \<open>Truthiness of a value that is a string or None: \<^verbatim>\<open>not x\<close> holds for None and ""\<close>

fun truthy :: "string option \<Rightarrow> bool" where
  "truthy None = False"
| "truthy (Some s) = (s \<noteq> [])"

subsection \<open>Request, credentials, response\<close>

text \<open>
  \<^verbatim>\<open>werkzeug.datastructures.Authorization\<close> is a dict with a \<^verbatim>\<open>type\<close> attribute; its
  properties (\<^verbatim>\<open>username\<close>, \<^verbatim>\<open>password\<close>, \<^verbatim>\<open>realm\<close>, ...) read the dict with
  \<^verbatim>\<open>get\<close>, so a missing key reads as None. As a dict it is falsy when it is empty.
\<close>

record Authorization =
  auth_type :: string
  auth_data :: "(string \<times> string) list"

definition auth_get :: "Authorization \<Rightarrow> string \<Rightarrow> string option" where
  "auth_get a k = map_of (auth_data a) k"

fun auth_truthy :: "Authorization option \<Rightarrow> bool" where
  "auth_truthy None = False"
| "auth_truthy (Some a) = (auth_data a \<noteq> [])"

text \<open>\<^verbatim>\<open>auth.username\<close> and the like, read where \<^verbatim>\<open>auth\<close> may be None.\<close>

fun auth_field :: "Authorization option \<Rightarrow> string \<Rightarrow> string option" where
  "auth_field None k = None"
| "auth_field (Some a) k = auth_get a k"

text \<open>
  The parts of \<^verbatim>\<open>flask.request\<close> the module reads: \<^verbatim>\<open>request.authorization\<close> (the
  framework's own parse of the header, None when it recognises nothing),
  \<^verbatim>\<open>request.headers\<close> and \<^verbatim>\<open>request.method\<close>.
\<close>

record request =
  authorization :: "Authorization option"
  headers :: "string \<rightharpoonup> string"
  request_method :: string

text \<open>
  A response as \<^verbatim>\<open>make_response\<close> returns it. Its headers are a list of
  (name, value) pairs: \<^verbatim>\<open>keys()\<close> lists the names as they were stored, and assigning
  \<^verbatim>\<open>headers[key] = value\<close> replaces the first entry whose name equals \<open>key\<close> up to case,
  drops the later such entries, and appends when there is none.
\<close>

record response =
  status_code :: int
  res_headers :: "(string \<times> string) list"
  res_body :: string

definition Headers_keys :: "(string \<times> string) list \<Rightarrow> string list" where
  "Headers_keys hs = map fst hs"

fun Headers_set :: "(string \<times> string) list \<Rightarrow> string \<Rightarrow> string \<Rightarrow> (string \<times> string) list" where
  "Headers_set [] key v = [(key, v)]"
| "Headers_set ((k, x) # hs) key v =
     (if lower k = lower key
      then (key, v) # filter (\<lambda>t. lower (fst t) \<noteq> lower key) hs
      else (k, x) # Headers_set hs key v)"

text \<open>\<^verbatim>\<open>headers.get(key)\<close>: the value of the first entry whose name equals \<open>key\<close> up to case.\<close>

definition Headers_get :: "(string \<times> string) list \<Rightarrow> string \<Rightarrow> string option" where
  "Headers_get hs key = map_of (map (\<lambda>(k, v). (lower k, v)) hs) (lower key)"

text \<open>What a view or an error callback returns, before \<^verbatim>\<open>make_response\<close>.\<close>

datatype rv = Rv_str string | Rv_response response

text \<open>
  The session (a dict of strings) and the random source of the default nonce and opaque
  generators: \<open>random_str w n\<close> is \<^verbatim>\<open>str(self.random.random())\<close> at the \<open>n\<close>-th draw.
\<close>

record world =
  session :: "string \<rightharpoonup> string"
  random_str :: "nat \<Rightarrow> string"
  random_count :: nat

subsection \<open>The authenticator classes\<close>

datatype auth_class =
  HTTPAuth | HTTPBasicAuth | HTTPDigestAuth | HTTPTokenAuth
  | HTTPBasicRoleAuth | HTTPTokenRoleAuth | HTTPDigestRoleAuth

text \<open>
  A \<^verbatim>\<open>hash_password\<close> callback takes the password, or the username and the password:
  the module calls it with one argument and, on TypeError, again with two.
\<close>

datatype hash_callback =
  Hash_password "string option \<Rightarrow> string option"
  | Hash_username_password "string option \<Rightarrow> string option \<Rightarrow> string option"

text \<open>
  One record holds the attributes of all classes; \<open>cls\<close> is the class of the object. An
  attribute that a class does not have is held at the value its constructor below gives
  it and is never read by the methods of that class. A callback attribute that can be
  None is an option.
\<close>

record authenticator =
  cls :: auth_class
  scheme :: "string option"
  realm :: string
  get_password_callback :: "string \<Rightarrow> string option"
  error_callback :: "unit \<Rightarrow> rv"
  hash_password_callback :: "hash_callback option"
  verify_password_callback :: "(string option \<Rightarrow> string option \<Rightarrow> bool) option"
  use_ha1_pw :: bool
  generate_nonce_callback :: "world \<Rightarrow> string \<times> world"
  verify_nonce_callback :: "world \<Rightarrow> string option \<Rightarrow> bool"
  generate_opaque_callback :: "world \<Rightarrow> string \<times> world"
  verify_opaque_callback :: "world \<Rightarrow> string option \<Rightarrow> bool"
  verify_token_callback :: "(string \<Rightarrow> bool) option"
  get_auth_roles_callback :: "(Authorization \<Rightarrow> string list) option"

fun isinstance_HTTPBasicAuth :: "auth_class \<Rightarrow> bool" where
  "isinstance_HTTPBasicAuth HTTPBasicAuth = True"
| "isinstance_HTTPBasicAuth HTTPBasicRoleAuth = True"
| "isinstance_HTTPBasicAuth _ = False"

fun isinstance_HTTPDigestAuth :: "auth_class \<Rightarrow> bool" where
  "isinstance_HTTPDigestAuth HTTPDigestAuth = True"
| "isinstance_HTTPDigestAuth HTTPDigestRoleAuth = True"
| "isinstance_HTTPDigestAuth _ = False"

fun isinstance_HTTPTokenAuth :: "auth_class \<Rightarrow> bool" where
  "isinstance_HTTPTokenAuth HTTPTokenAuth = True"
| "isinstance_HTTPTokenAuth HTTPTokenRoleAuth = True"
| "isinstance_HTTPTokenAuth _ = False"

fun isinstance_HTTPRoleAuthMixin :: "auth_class \<Rightarrow> bool" where
  "isinstance_HTTPRoleAuthMixin HTTPBasicRoleAuth = True"
| "isinstance_HTTPRoleAuthMixin HTTPTokenRoleAuth = True"
| "isinstance_HTTPRoleAuthMixin HTTPDigestRoleAuth = True"
| "isinstance_HTTPRoleAuthMixin _ = False"

subsection \<open>HTTPAuth\<close>

definition default_get_password :: "string \<Rightarrow> string option" where
  "default_get_password username = None"

definition default_auth_error :: "unit \<Rightarrow> rv" where
  "default_auth_error u = Rv_str ''Unauthorized Access''"

text \<open>
  \<^verbatim>\<open>HTTPAuth.__init__\<close>: \<^verbatim>\<open>realm or "Authentication Required"\<close> replaces a realm
  that is None or empty.
\<close>

definition HTTPAuth_init :: "string option \<Rightarrow> string option \<Rightarrow> authenticator" where
  "HTTPAuth_init scheme0 realm0 =
     \<lparr> cls = HTTPAuth,
       scheme = scheme0,
       realm = (case realm0 of
                  None \<Rightarrow> ''Authentication Required''
                | Some r \<Rightarrow> if r = [] then ''Authentication Required'' else r),
       get_password_callback = default_get_password,
       error_callback = default_auth_error,
       hash_password_callback = None,
       verify_password_callback = None,
       use_ha1_pw = False,
       generate_nonce_callback = (\<lambda>w. ([], w)),
       verify_nonce_callback = (\<lambda>w n. False),
       generate_opaque_callback = (\<lambda>w. ([], w)),
       verify_opaque_callback = (\<lambda>w n. False),
       verify_token_callback = None,
       get_auth_roles_callback = None \<rparr>"

text \<open>\<^verbatim>\<open>'{0}'.format(x)\<close> of a string or None.\<close>

fun format_str :: "string option \<Rightarrow> string" where
  "format_str None = ''None''"
| "format_str (Some s) = s"

definition HTTPAuth_authenticate_header :: "authenticator \<Rightarrow> string" where
  "HTTPAuth_authenticate_header self =
     format_str (scheme self) @ '' realm=\"'' @ realm self @ ''\"''"

text \<open>
  \<^verbatim>\<open>get_auth\<close>: when the framework parsed nothing and the header is present, the header
  is split by hand; a header that does not split into two parts raises ValueError, which
  is caught. Then credentials of another scheme are dropped. \<^verbatim>\<open>self.scheme.lower()\<close>
  raises AttributeError when no scheme is configured.
\<close>

definition get_auth :: "authenticator \<Rightarrow> request \<Rightarrow> error + Authorization option" where
  "get_auth self req =
     (let auth = authorization req;
          auth =
            (case (auth, headers req ''Authorization'') of
               (None, Some h) \<Rightarrow>
                 (case unpack2 (split_None_1 h) of
                    Inr (auth_type0, token) \<Rightarrow>
                      Some \<lparr> auth_type = auth_type0, auth_data = [(''token'', token)] \<rparr>
                  | Inl e \<Rightarrow> None)
             | _ \<Rightarrow> auth)
      in case auth of
           None \<Rightarrow> Inr None
         | Some a \<Rightarrow>
             (case scheme self of
                None \<Rightarrow> Inl AttributeError
              | Some s \<Rightarrow> if lower (auth_type a) \<noteq> lower s then Inr None else Inr (Some a)))"

definition get_auth_password :: "authenticator \<Rightarrow> Authorization option \<Rightarrow> string option" where
  "get_auth_password self auth =
     (case auth of
        None \<Rightarrow> None
      | Some a \<Rightarrow>
          (if auth_data a \<noteq> [] \<and> truthy (auth_get a ''username'')
           then (case auth_get a ''username'' of
                   Some u \<Rightarrow> get_password_callback self u
                 | None \<Rightarrow> None)
           else None))"

text \<open>\<^verbatim>\<open>get_password\<close> and \<^verbatim>\<open>error_handler\<close> register a callback on the object.\<close>

definition get_password :: "authenticator \<Rightarrow> (string \<Rightarrow> string option) \<Rightarrow> authenticator" where
  "get_password self f = self\<lparr>get_password_callback := f\<rparr>"

definition error_handler :: "authenticator \<Rightarrow> (unit \<Rightarrow> rv) \<Rightarrow> authenticator" where
  "error_handler self f = self\<lparr>error_callback := f\<rparr>"

definition username :: "request \<Rightarrow> string option" where
  "username req =
     (case authorization req of
        None \<Rightarrow> Some []
      | Some a \<Rightarrow> if auth_data a = [] then Some [] else auth_get a ''username'')"

subsection \<open>HTTPBasicAuth\<close>

text \<open>\<^verbatim>\<open>scheme or 'Basic'\<close>: a scheme that is None or empty is replaced.\<close>

fun scheme_or :: "string option \<Rightarrow> string \<Rightarrow> string" where
  "scheme_or None d = d"
| "scheme_or (Some s) d = (if s = [] then d else s)"

definition HTTPBasicAuth_init :: "string option \<Rightarrow> string option \<Rightarrow> authenticator" where
  "HTTPBasicAuth_init scheme0 realm0 =
     (HTTPAuth_init (Some (scheme_or scheme0 ''Basic'')) realm0)
       \<lparr> cls := HTTPBasicAuth, hash_password_callback := None, verify_password_callback := None \<rparr>"

definition hash_password :: "authenticator \<Rightarrow> hash_callback \<Rightarrow> authenticator" where
  "hash_password self f = self\<lparr>hash_password_callback := Some f\<rparr>"

definition verify_password ::
  "authenticator \<Rightarrow> (string option \<Rightarrow> string option \<Rightarrow> bool) \<Rightarrow> authenticator" where
  "verify_password self f = self\<lparr>verify_password_callback := Some f\<rparr>"

definition HTTPBasicAuth_authenticate ::
  "authenticator \<Rightarrow> Authorization option \<Rightarrow> string option \<Rightarrow> bool" where
  "HTTPBasicAuth_authenticate self auth stored_password =
     (let (username0, client_password) =
            (case auth of
               Some a \<Rightarrow>
                 if auth_data a \<noteq> [] then (auth_get a ''username'', auth_get a ''password'')
                 else (Some [], Some [])
             | None \<Rightarrow> (Some [], Some []))
      in case verify_password_callback self of
           Some verify_cb \<Rightarrow> verify_cb username0 client_password
         | None \<Rightarrow>
             if \<not> auth_truthy auth then False
             else
               let client_password =
                     (case hash_password_callback self of
                        None \<Rightarrow> client_password
                      | Some (Hash_password h) \<Rightarrow> h client_password
                      | Some (Hash_username_password h) \<Rightarrow> h username0 client_password)
               in (case (client_password, stored_password) of
                     (Some c, Some s) \<Rightarrow> safe_str_cmp c s
                   | _ \<Rightarrow> False))"

subsection \<open>HTTPDigestAuth\<close>

text \<open>
  \<open>md5_hexdigest\<close> stands for \<^verbatim>\<open>md5(x.encode('utf-8')).hexdigest()\<close> of the standard
  library; the functions that hash take it as their first argument.
\<close>

definition generate_random :: "(string \<Rightarrow> string) \<Rightarrow> world \<Rightarrow> string \<times> world" where
  "generate_random md5_hexdigest w =
     (md5_hexdigest (random_str w (random_count w)), w\<lparr>random_count := Suc (random_count w)\<rparr>)"

definition default_generate_nonce :: "(string \<Rightarrow> string) \<Rightarrow> world \<Rightarrow> string \<times> world" where
  "default_generate_nonce md5_hexdigest w =
     (let (r, w1) = generate_random md5_hexdigest w
      in (r, w1\<lparr>session := (session w1)(''auth_nonce'' \<mapsto> r)\<rparr>))"

definition default_verify_nonce :: "world \<Rightarrow> string option \<Rightarrow> bool" where
  "default_verify_nonce w nonce =
     (case (nonce, session w ''auth_nonce'') of
        (Some n, Some session_nonce) \<Rightarrow> safe_str_cmp n session_nonce
      | _ \<Rightarrow> False)"

definition default_generate_opaque :: "(string \<Rightarrow> string) \<Rightarrow> world \<Rightarrow> string \<times> world" where
  "default_generate_opaque md5_hexdigest w =
     (let (r, w1) = generate_random md5_hexdigest w
      in (r, w1\<lparr>session := (session w1)(''auth_opaque'' \<mapsto> r)\<rparr>))"

definition default_verify_opaque :: "world \<Rightarrow> string option \<Rightarrow> bool" where
  "default_verify_opaque w opaque =
     (case (opaque, session w ''auth_opaque'') of
        (Some opq, Some session_opaque) \<Rightarrow> safe_str_cmp opq session_opaque
      | _ \<Rightarrow> False)"

text \<open>
  \<^verbatim>\<open>HTTPDigestAuth.__init__\<close> registers the default generators and verifiers. Its one
  call of \<^verbatim>\<open>self.random.random()\<close>, which only probes the random source, is not
  counted among the draws of the \<open>world\<close>.
\<close>

definition HTTPDigestAuth_init ::
  "(string \<Rightarrow> string) \<Rightarrow> string option \<Rightarrow> string option \<Rightarrow> bool \<Rightarrow> authenticator" where
  "HTTPDigestAuth_init md5_hexdigest scheme0 realm0 use_ha1_pw0 =
     (HTTPAuth_init (Some (scheme_or scheme0 ''Digest'')) realm0)
       \<lparr> cls := HTTPDigestAuth,
         use_ha1_pw := use_ha1_pw0,
         generate_nonce_callback := default_generate_nonce md5_hexdigest,
         verify_nonce_callback := default_verify_nonce,
         generate_opaque_callback := default_generate_opaque md5_hexdigest,
         verify_opaque_callback := default_verify_opaque \<rparr>"

definition generate_nonce :: "authenticator \<Rightarrow> (world \<Rightarrow> string \<times> world) \<Rightarrow> authenticator" where
  "generate_nonce self f = self\<lparr>generate_nonce_callback := f\<rparr>"

definition verify_nonce :: "authenticator \<Rightarrow> (world \<Rightarrow> string option \<Rightarrow> bool) \<Rightarrow> authenticator" where
  "verify_nonce self f = self\<lparr>verify_nonce_callback := f\<rparr>"

definition generate_opaque :: "authenticator \<Rightarrow> (world \<Rightarrow> string \<times> world) \<Rightarrow> authenticator" where
  "generate_opaque self f = self\<lparr>generate_opaque_callback := f\<rparr>"

definition verify_opaque :: "authenticator \<Rightarrow> (world \<Rightarrow> string option \<Rightarrow> bool) \<Rightarrow> authenticator" where
  "verify_opaque self f = self\<lparr>verify_opaque_callback := f\<rparr>"

definition get_nonce :: "authenticator \<Rightarrow> world \<Rightarrow> string \<times> world" where
  "get_nonce self w = generate_nonce_callback self w"

definition get_opaque :: "authenticator \<Rightarrow> world \<Rightarrow> string \<times> world" where
  "get_opaque self w = generate_opaque_callback self w"

definition generate_ha1 :: "(string \<Rightarrow> string) \<Rightarrow> authenticator \<Rightarrow> string \<Rightarrow> string \<Rightarrow> string" where
  "generate_ha1 md5_hexdigest self username0 password =
     (let a1 = username0 @ '':'' @ realm self @ '':'' @ password
      in md5_hexdigest a1)"

definition HTTPDigestAuth_authenticate_header :: "authenticator \<Rightarrow> world \<Rightarrow> string \<times> world" where
  "HTTPDigestAuth_authenticate_header self w =
     (let (nonce, w1) = get_nonce self w;
          (opaque, w2) = get_opaque self w1
      in (format_str (scheme self) @ '' realm=\"'' @ realm self @ ''\",nonce=\"'' @ nonce
            @ ''\",opaque=\"'' @ opaque @ ''\"'', w2))"

text \<open>
  What \<^verbatim>\<open>HTTPDigestAuth.authenticate\<close> does besides returning: the callbacks it
  calls and the strings it hashes, in order.
\<close>

datatype event = Verify_nonce "string option" | Verify_opaque "string option" | Md5 string

fun is_Md5 :: "event \<Rightarrow> bool" where
  "is_Md5 (Md5 x) = True"
| "is_Md5 _ = False"

text \<open>
  \<^verbatim>\<open>HTTPDigestAuth.authenticate\<close> returns its boolean together with the events of the
  call. The first test reads no callback; the second calls the nonce verifier and, only
  when that accepts, the opaque verifier; the hash chain follows.
\<close>

definition HTTPDigestAuth_authenticate ::
  "(string \<Rightarrow> string) \<Rightarrow> authenticator \<Rightarrow> request \<Rightarrow> world \<Rightarrow> Authorization option
     \<Rightarrow> string option \<Rightarrow> bool \<times> event list" where
  "HTTPDigestAuth_authenticate md5_hexdigest self req w auth stored_password_or_ha1 =
     (case auth of
        None \<Rightarrow> (False, [])
      | Some a \<Rightarrow>
          (case (auth_get a ''username'', auth_get a ''realm'', auth_get a ''uri'',
                 auth_get a ''nonce'', auth_get a ''response'', stored_password_or_ha1) of
             (Some u, Some r, Some uri, Some nonce, Some resp, Some stored) \<Rightarrow>
               if auth_data a = [] \<or> u = [] \<or> r = [] \<or> uri = [] \<or> nonce = [] \<or> resp = []
                  \<or> stored = []
               then (False, [])
               else if \<not> verify_nonce_callback self w (auth_get a ''nonce'')
               then (False, [Verify_nonce (auth_get a ''nonce'')])
               else if \<not> verify_opaque_callback self w (auth_get a ''opaque'')
               then (False, [Verify_nonce (auth_get a ''nonce''),
                             Verify_opaque (auth_get a ''opaque'')])
               else
                 let (ha1, ev1) =
                       (if use_ha1_pw self then (stored, [])
                        else let a1 = u @ '':'' @ r @ '':'' @ stored
                             in (md5_hexdigest a1, [Md5 a1]));
                     a2 = request_method req @ '':'' @ uri;
                     ha2 = md5_hexdigest a2;
                     a3 = ha1 @ '':'' @ nonce @ '':'' @ ha2;
                     response0 = md5_hexdigest a3
                 in (safe_str_cmp response0 resp,
                     [Verify_nonce (auth_get a ''nonce''), Verify_opaque (auth_get a ''opaque'')]
                       @ ev1 @ [Md5 a2, Md5 a3])
           | _ \<Rightarrow> (False, [])))"

text \<open>
  The hash chain in the specification's words, to compare \<^verbatim>\<open>authenticate\<close> with:
  \<open>HA1 = H(username ":" realm ":" password)\<close>, \<open>HA2 = H(request_method ":" request_uri)\<close>
  and \<open>expected_response = H(HA1 ":" nonce ":" HA2)\<close>.
\<close>

definition spec_HA1 :: "(string \<Rightarrow> string) \<Rightarrow> string \<Rightarrow> string \<Rightarrow> string \<Rightarrow> string" where
  "spec_HA1 H username0 realm0 password = H (username0 @ '':'' @ realm0 @ '':'' @ password)"

definition spec_HA2 :: "(string \<Rightarrow> string) \<Rightarrow> string \<Rightarrow> string \<Rightarrow> string" where
  "spec_HA2 H request_method0 request_uri = H (request_method0 @ '':'' @ request_uri)"

definition spec_expected_response ::
  "(string \<Rightarrow> string) \<Rightarrow> string \<Rightarrow> string \<Rightarrow> string \<Rightarrow> string" where
  "spec_expected_response H ha1 nonce ha2 = H (ha1 @ '':'' @ nonce @ '':'' @ ha2)"

subsection \<open>HTTPTokenAuth\<close>

text \<open>The constructor's default for \<^verbatim>\<open>scheme\<close> is \<^verbatim>\<open>'Bearer'\<close>; a caller's value is kept as it is.\<close>

definition HTTPTokenAuth_init :: "string option \<Rightarrow> string option \<Rightarrow> authenticator" where
  "HTTPTokenAuth_init scheme0 realm0 =
     (HTTPAuth_init scheme0 realm0) \<lparr> cls := HTTPTokenAuth, verify_token_callback := None \<rparr>"

definition verify_token :: "authenticator \<Rightarrow> (string \<Rightarrow> bool) \<Rightarrow> authenticator" where
  "verify_token self f = self\<lparr>verify_token_callback := Some f\<rparr>"

text \<open>\<^verbatim>\<open>auth['token']\<close> raises KeyError when the credentials hold no token.\<close>

definition HTTPTokenAuth_authenticate ::
  "authenticator \<Rightarrow> Authorization option \<Rightarrow> string option \<Rightarrow> error + bool" where
  "HTTPTokenAuth_authenticate self auth stored_password =
     (case (case auth of
              None \<Rightarrow> Inr []
            | Some a \<Rightarrow>
                if auth_data a \<noteq> []
                then (case auth_get a ''token'' of None \<Rightarrow> Inl KeyError | Some t \<Rightarrow> Inr t)
                else Inr []) of
        Inl e \<Rightarrow> Inl e
      | Inr token \<Rightarrow>
          (case verify_token_callback self of
             Some verify_cb \<Rightarrow> Inr (verify_cb token)
           | None \<Rightarrow> Inr False))"

subsection \<open>Method dispatch, the error handler and \<^verbatim>\<open>login_required\<close>\<close>

text \<open>
  \<^verbatim>\<open>self.authenticate_header()\<close> and \<^verbatim>\<open>self.authenticate(auth, password)\<close> resolve by
  the class of \<open>self\<close>. \<^verbatim>\<open>HTTPAuth\<close> itself defines no \<^verbatim>\<open>authenticate\<close>.
\<close>

definition authenticate_header :: "authenticator \<Rightarrow> world \<Rightarrow> string \<times> world" where
  "authenticate_header self w =
     (if isinstance_HTTPDigestAuth (cls self) then HTTPDigestAuth_authenticate_header self w
      else (HTTPAuth_authenticate_header self, w))"

definition authenticate ::
  "(string \<Rightarrow> string) \<Rightarrow> authenticator \<Rightarrow> request \<Rightarrow> world \<Rightarrow> Authorization option
     \<Rightarrow> string option \<Rightarrow> error + bool" where
  "authenticate md5_hexdigest self req w auth stored_password =
     (if isinstance_HTTPBasicAuth (cls self)
      then Inr (HTTPBasicAuth_authenticate self auth stored_password)
      else if isinstance_HTTPDigestAuth (cls self)
      then Inr (fst (HTTPDigestAuth_authenticate md5_hexdigest self req w auth stored_password))
      else if isinstance_HTTPTokenAuth (cls self)
      then HTTPTokenAuth_authenticate self auth stored_password
      else Inl AttributeError)"

text \<open>
  The function \<^verbatim>\<open>decorated\<close> that \<^verbatim>\<open>error_handler(f)\<close> builds; \<open>make_response\<close> is
  Flask's. The challenge string is computed only when the header is to be set.
\<close>

definition error_handler_decorated ::
  "(rv \<Rightarrow> response) \<Rightarrow> authenticator \<Rightarrow> (unit \<Rightarrow> rv) \<Rightarrow> world \<Rightarrow> response \<times> world" where
  "error_handler_decorated make_response self f w =
     (let res = f ();
          res = make_response res;
          res = (if status_code res = 200 then res\<lparr>status_code := 401\<rparr> else res)
      in if ''WWW-Authenticate'' \<notin> set (Headers_keys (res_headers res))
         then (let (h, w') = authenticate_header self w
               in (res\<lparr>res_headers := Headers_set (res_headers res) ''WWW-Authenticate'' h\<rparr>, w'))
         else (res, w))"

definition auth_error_callback ::
  "(rv \<Rightarrow> response) \<Rightarrow> authenticator \<Rightarrow> world \<Rightarrow> response \<times> world" where
  "auth_error_callback make_response self w =
     error_handler_decorated make_response self (error_callback self) w"

text \<open>What a decorated view returns: the view's own result or the error response.\<close>

datatype 'r reply = View 'r | Auth_error response

definition HTTPAuth_login_required ::
  "(string \<Rightarrow> string) \<Rightarrow> (rv \<Rightarrow> response) \<Rightarrow> authenticator \<Rightarrow> (unit \<Rightarrow> 'r) \<Rightarrow> request
     \<Rightarrow> world \<Rightarrow> error + ('r reply \<times> world)" where
  "HTTPAuth_login_required md5_hexdigest make_response self f req w =
     (case get_auth self req of
        Inl e \<Rightarrow> Inl e
      | Inr auth \<Rightarrow>
          if request_method req \<noteq> ''OPTIONS''
          then
            (let password = get_auth_password self auth
             in case authenticate md5_hexdigest self req w auth password of
                  Inl e \<Rightarrow> Inl e
                | Inr ok \<Rightarrow>
                    if \<not> ok
                    then (let (res, w') = auth_error_callback make_response self w
                          in Inr (Auth_error res, w'))
                    else Inr (View (f ()), w))
          else Inr (View (f ()), w))"

subsection \<open>MultiAuth\<close>

record multi_auth =
  main_auth :: authenticator
  additional_auth :: "authenticator list"

definition MultiAuth_init :: "authenticator \<Rightarrow> authenticator list \<Rightarrow> multi_auth" where
  "MultiAuth_init main_auth0 args = \<lparr> main_auth = main_auth0, additional_auth = args \<rparr>"

text \<open>The loop of \<^verbatim>\<open>selected_auth\<close>: the first authenticator whose scheme is the header's.\<close>

fun first_with_scheme :: "string \<Rightarrow> authenticator list \<Rightarrow> authenticator option" where
  "first_with_scheme scheme0 [] = None"
| "first_with_scheme scheme0 (auth # rest) =
     (if scheme auth = Some scheme0 then Some auth else first_with_scheme scheme0 rest)"

definition selected_auth :: "multi_auth \<Rightarrow> request \<Rightarrow> authenticator" where
  "selected_auth self req =
     (let selected =
            (case headers req ''Authorization'' of
               None \<Rightarrow> None
             | Some h \<Rightarrow>
                 (case unpack2 (split_None_1 h) of
                    Inl e \<Rightarrow> None
                  | Inr (scheme0, creds) \<Rightarrow> first_with_scheme scheme0 (additional_auth self)))
      in case selected of None \<Rightarrow> main_auth self | Some auth \<Rightarrow> auth)"

definition MultiAuth_login_required ::
  "(string \<Rightarrow> string) \<Rightarrow> (rv \<Rightarrow> response) \<Rightarrow> multi_auth \<Rightarrow> (unit \<Rightarrow> 'r) \<Rightarrow> request
     \<Rightarrow> world \<Rightarrow> error + ('r reply \<times> world)" where
  "MultiAuth_login_required md5_hexdigest make_response self f req w =
     HTTPAuth_login_required md5_hexdigest make_response (selected_auth self req) f req w"

subsection \<open>HTTPRoleAuthMixin\<close>

definition get_auth_roles ::
  "authenticator \<Rightarrow> (Authorization \<Rightarrow> string list) \<Rightarrow> authenticator" where
  "get_auth_roles self f = self\<lparr>get_auth_roles_callback := Some f\<rparr>"

text \<open>
  \<^verbatim>\<open>role in endpoint_roles\<close>, where \<^verbatim>\<open>endpoint_roles\<close> is a collection of strings or
  None: a membership test against None raises TypeError.
\<close>

fun role_in :: "string \<Rightarrow> string list option \<Rightarrow> error + bool" where
  "role_in role None = Inl TypeError"
| "role_in role (Some endpoint_roles) = Inr (role \<in> set endpoint_roles)"

text \<open>
  \<^verbatim>\<open>all(role in endpoint_roles for role in auth_roles)\<close> and the same with \<^verbatim>\<open>any\<close>:
  the roles are tested in order, and the first test that decides or raises ends the scan.
\<close>

fun all_in :: "string list option \<Rightarrow> string list \<Rightarrow> error + bool" where
  "all_in endpoint_roles [] = Inr True"
| "all_in endpoint_roles (role # auth_roles) =
     (case role_in role endpoint_roles of
        Inl e \<Rightarrow> Inl e
      | Inr b \<Rightarrow> if b then all_in endpoint_roles auth_roles else Inr False)"

fun any_in :: "string list option \<Rightarrow> string list \<Rightarrow> error + bool" where
  "any_in endpoint_roles [] = Inr False"
| "any_in endpoint_roles (role # auth_roles) =
     (case role_in role endpoint_roles of
        Inl e \<Rightarrow> Inl e
      | Inr b \<Rightarrow> if b then Inr True else any_in endpoint_roles auth_roles)"

text \<open>
  \<^verbatim>\<open>authorize\<close>. Calling a roles callback that was never registered (None) raises
  TypeError.
\<close>

definition authorize ::
  "authenticator \<Rightarrow> Authorization option \<Rightarrow> string list option \<Rightarrow> bool \<Rightarrow> error + bool" where
  "authorize self auth endpoint_roles use_all =
     (case auth of
        None \<Rightarrow> Inr False
      | Some a \<Rightarrow>
          if auth_data a = [] then Inr False
          else
            (case get_auth_roles_callback self of
               None \<Rightarrow> Inl TypeError
             | Some roles_cb \<Rightarrow>
                 (let auth_roles = roles_cb a
                  in if use_all then all_in endpoint_roles auth_roles
                     else any_in endpoint_roles auth_roles)))"

text \<open>The local function \<^verbatim>\<open>verify\<close> of the mixin's \<^verbatim>\<open>login_required\<close>.\<close>

definition verify ::
  "(string \<Rightarrow> string) \<Rightarrow> authenticator \<Rightarrow> request \<Rightarrow> world \<Rightarrow> string list option \<Rightarrow> bool
     \<Rightarrow> Authorization option \<Rightarrow> string option \<Rightarrow> error + bool" where
  "verify md5_hexdigest self req w roles use_all auth stored_password =
     (case authenticate md5_hexdigest self req w auth stored_password of
        Inl e \<Rightarrow> Inl e
      | Inr ok \<Rightarrow> if ok then authorize self auth roles use_all else Inr False)"

text \<open>
  The mixin's \<^verbatim>\<open>login_required(func, roles, use_all)\<close>: with \<^verbatim>\<open>func\<close> it is the plain
  \<^verbatim>\<open>login_required\<close>; without, it returns a decorator, and \<open>f\<close> is the view that the
  decorator is then applied to.
\<close>

definition HTTPRoleAuthMixin_login_required ::
  "(string \<Rightarrow> string) \<Rightarrow> (rv \<Rightarrow> response) \<Rightarrow> authenticator \<Rightarrow> (unit \<Rightarrow> 'r) option
     \<Rightarrow> string list option \<Rightarrow> bool \<Rightarrow> (unit \<Rightarrow> 'r) \<Rightarrow> request \<Rightarrow> world
     \<Rightarrow> error + ('r reply \<times> world)" where
  "HTTPRoleAuthMixin_login_required md5_hexdigest make_response self func roles use_all f req w =
     (case func of
        Some g \<Rightarrow> HTTPAuth_login_required md5_hexdigest make_response self g req w
      | None \<Rightarrow>
          (case get_auth self req of
             Inl e \<Rightarrow> Inl e
           | Inr auth \<Rightarrow>
               if request_method req \<noteq> ''OPTIONS''
               then
                 (let password = get_auth_password self auth
                  in case verify md5_hexdigest self req w roles use_all auth password of
                       Inl e \<Rightarrow> Inl e
                     | Inr ok \<Rightarrow>
                         if \<not> ok
                         then (let (res, w') = auth_error_callback make_response self w
                               in Inr (Auth_error res, w'))
                         else Inr (View (f ()), w))
               else Inr (View (f ()), w)))"

definition HTTPBasicRoleAuth_init :: "string option \<Rightarrow> string option \<Rightarrow> authenticator" where
  "HTTPBasicRoleAuth_init scheme0 realm0 =
     (HTTPBasicAuth_init scheme0 realm0)
       \<lparr> cls := HTTPBasicRoleAuth, get_auth_roles_callback := None \<rparr>"

definition HTTPTokenRoleAuth_init :: "string option \<Rightarrow> string option \<Rightarrow> authenticator" where
  "HTTPTokenRoleAuth_init scheme0 realm0 =
     (HTTPTokenAuth_init scheme0 realm0)
       \<lparr> cls := HTTPTokenRoleAuth, get_auth_roles_callback := None \<rparr>"

definition HTTPDigestRoleAuth_init ::
  "(string \<Rightarrow> string) \<Rightarrow> string option \<Rightarrow> string option \<Rightarrow> bool \<Rightarrow> authenticator" where
  "HTTPDigestRoleAuth_init md5_hexdigest scheme0 realm0 use_ha1_pw0 =
     (HTTPDigestAuth_init md5_hexdigest scheme0 realm0 use_ha1_pw0)
       \<lparr> cls := HTTPDigestRoleAuth, get_auth_roles_callback := None \<rparr>"

subsection \<open>MultiRoleAuth\<close>

text \<open>
  The loop of \<^verbatim>\<open>MultiRoleAuth.__init__\<close> over \<^verbatim>\<open>(main_auth, *args)\<close>: the first
  authenticator that is no \<^verbatim>\<open>HTTPRoleAuthMixin\<close> raises TypeError.
\<close>

fun check_role_auths :: "authenticator list \<Rightarrow> error + unit" where
  "check_role_auths [] = Inr ()"
| "check_role_auths (auth # rest) =
     (if \<not> isinstance_HTTPRoleAuthMixin (cls auth) then Inl TypeError
      else check_role_auths rest)"

definition MultiRoleAuth_init :: "authenticator \<Rightarrow> authenticator list \<Rightarrow> error + multi_auth" where
  "MultiRoleAuth_init main_auth0 args =
     (case check_role_auths (main_auth0 # args) of
        Inl e \<Rightarrow> Inl e
      | Inr u \<Rightarrow> Inr (MultiAuth_init main_auth0 args))"

text \<open>
  \<^verbatim>\<open>MultiRoleAuth.login_required\<close>. Without \<^verbatim>\<open>func\<close> it calls the selected
  authenticator's \<^verbatim>\<open>login_required(roles=roles, use_all=use_all)\<close>: only the mixin's
  method takes these keywords, \<^verbatim>\<open>HTTPAuth.login_required\<close> raises TypeError on them.
\<close>

definition MultiRoleAuth_login_required ::
  "(string \<Rightarrow> string) \<Rightarrow> (rv \<Rightarrow> response) \<Rightarrow> multi_auth \<Rightarrow> (unit \<Rightarrow> 'r) option
     \<Rightarrow> string list option \<Rightarrow> bool \<Rightarrow> (unit \<Rightarrow> 'r) \<Rightarrow> request \<Rightarrow> world
     \<Rightarrow> error + ('r reply \<times> world)" where
  "MultiRoleAuth_login_required md5_hexdigest make_response self func roles use_all f req w =
     (case func of
        Some g \<Rightarrow> MultiAuth_login_required md5_hexdigest make_response self g req w
      | None \<Rightarrow>
          (let selected = selected_auth self req
           in if isinstance_HTTPRoleAuthMixin (cls selected)
              then HTTPRoleAuthMixin_login_required md5_hexdigest make_response selected None
                     roles use_all f req w
              else Inl TypeError))"

section \<open>Properties\<close>

subsection \<open>Evaluation of \<^verbatim>\<open>lower\<close> on the scheme names used below\<close>

lemma lower_Basic: "lower ''Basic'' = ''basic''"
  by code_simp

lemma lower_basic: "lower ''basic'' = ''basic''"
  by code_simp

lemma lower_Bearer: "lower ''Bearer'' = ''bearer''"
  by code_simp

lemma lower_BEARER: "lower ''BEARER'' = ''bearer''"
  by code_simp

subsection \<open>Splitting a header\<close>

lemma split_Basic: "split_None_1 ''Basic'' = [''Basic'']"
  by code_simp

lemma split_Basic_abc: "split_None_1 ''Basic abc'' = [''Basic'', ''abc'']"
  by code_simp

lemma split_Bearer_xyz: "split_None_1 ''Bearer xyz'' = [''Bearer'', ''xyz'']"
  by code_simp

lemma split_BEARER_xyz: "split_None_1 ''BEARER xyz'' = [''BEARER'', ''xyz'']"
  by code_simp

lemma split_None_1_length: "length (split_None_1 h) \<le> 2"
  unfolding split_None_1_def Let_def
  by (simp del: dropWhile_eq_Nil_conv)

text \<open>A header has no second part exactly when nothing follows the white space after its first word.\<close>

lemma split_None_1_no_token:
  "(length (split_None_1 h) \<noteq> 2)
     = (dropWhile isspace (dropWhile (\<lambda>c. \<not> isspace c) (dropWhile isspace h)) = [])"
  unfolding split_None_1_def Let_def
  by (simp del: dropWhile_eq_Nil_conv)

lemma unpack2_Inl: "(unpack2 xs = Inl e) = (length xs \<noteq> 2 \<and> e = ValueError)"
  by (cases xs rule: unpack2.cases) auto

subsection \<open>Role authorization\<close>

lemma any_in_Some: "any_in (Some er) rs = Inr (\<exists>r \<in> set rs. r \<in> set er)"
  by (induction rs) auto

lemma all_in_Some: "all_in (Some er) rs = Inr (\<forall>r \<in> set rs. r \<in> set er)"
  by (induction rs) auto

lemma all_in_None: "all_in None rs = (if rs = [] then Inr True else Inl TypeError)"
  by (cases rs) auto

lemma any_in_None: "any_in None rs = (if rs = [] then Inr False else Inl TypeError)"
  by (cases rs) auto

text \<open>
  In ALL mode \<^verbatim>\<open>authorize\<close> tests every role of the identity against the endpoint's
  roles: it returns true exactly when the identity's roles are all among the required
  ones.
\<close>

lemma authorize_all_mode:
  assumes "auth_data a \<noteq> []" and "get_auth_roles_callback self = Some roles_cb"
  shows "authorize self (Some a) (Some required_roles) True
           = Inr (\<forall>role \<in> set (roles_cb a). role \<in> set required_roles)"
  using assms by (simp add: authorize_def all_in_Some)

text \<open>
  Claim C1, at the input where the code departs from it: the identity has the role
  \<open>a\<close> only, the endpoint requires \<open>a\<close> and \<open>b\<close>, the mode is ALL, and \<^verbatim>\<open>authorize\<close>
  returns true although the required role \<open>b\<close> is missing.
\<close>

theorem authorize_all_mode_identity_a_required_ab:
  "authorize (get_auth_roles (HTTPBasicRoleAuth_init None None) (\<lambda>a. [''a'']))
     (Some \<lparr>auth_type = ''basic'', auth_data = [(''username'', ''u''), (''password'', ''p'')]\<rparr>)
     (Some [''a'', ''b'']) True = Inr True"
  by (simp add: authorize_def get_auth_roles_def)

text \<open>
  Claim C2: in ANY mode (\<^verbatim>\<open>use_all = False\<close>), for credentials that are present,
  \<^verbatim>\<open>authorize\<close> returns true if and only if at least one required role is in the
  identity's role set, the set that the roles callback returns for the credentials.
\<close>

theorem authorize_any_mode:
  assumes "auth_data a \<noteq> []" and "get_auth_roles_callback self = Some roles_cb"
  shows "authorize self (Some a) (Some required_roles) False
           = Inr (\<exists>role \<in> set required_roles. role \<in> set (roles_cb a))"
  using assms by (auto simp: authorize_def any_in_Some)

text \<open>
  The two cases the specification names: identity \<open>{a}\<close> with required \<open>{a, b}\<close> is
  authorized, the empty identity with required \<open>{a}\<close> is not.
\<close>

theorem authorize_any_mode_witness:
  "authorize (get_auth_roles (HTTPBasicRoleAuth_init None None) (\<lambda>a. [''a'']))
     (Some \<lparr>auth_type = ''basic'', auth_data = [(''username'', ''u''), (''password'', ''p'')]\<rparr>)
     (Some [''a'', ''b'']) False = Inr True
   \<and> authorize (get_auth_roles (HTTPBasicRoleAuth_init None None) (\<lambda>a. []))
     (Some \<lparr>auth_type = ''basic'', auth_data = [(''username'', ''u''), (''password'', ''p'')]\<rparr>)
     (Some [''a'']) False = Inr False"
  using authorize_any_mode [of
      "\<lparr>auth_type = ''basic'', auth_data = [(''username'', ''u''), (''password'', ''p'')]\<rparr>"
      "get_auth_roles (HTTPBasicRoleAuth_init None None) (\<lambda>a. [''a''])"
      "\<lambda>a. [''a'']" "[''a'', ''b'']"]
    authorize_any_mode [of
      "\<lparr>auth_type = ''basic'', auth_data = [(''username'', ''u''), (''password'', ''p'')]\<rparr>"
      "get_auth_roles (HTTPBasicRoleAuth_init None None) (\<lambda>a. [])"
      "\<lambda>a. []" "[''a'']"]
  by (simp add: get_auth_roles_def)

lemma authorize_None_roles:
  assumes "auth_data a \<noteq> []" and "get_auth_roles_callback self = Some roles_cb"
  shows "authorize self (Some a) None use_all
           = (if roles_cb a = [] then Inr use_all else Inl TypeError)"
  using assms by (simp add: authorize_def all_in_None any_in_None)

text \<open>
  Claim C10: \<^verbatim>\<open>login_required\<close> of the role mixin in its parameterized form without
  roles (\<^verbatim>\<open>roles = None\<close>). When the request carries credentials, it is not an OPTIONS
  request and authentication succeeds, \<^verbatim>\<open>authorize\<close> raises TypeError if the identity
  has a role, and the decorated view raises it too; only for an identity without roles
  does \<^verbatim>\<open>authorize\<close> return a boolean, false in ANY mode and true in ALL mode, so that
  the view is then refused in ANY mode and run in ALL mode.
\<close>

theorem login_required_without_roles:
  assumes "get_auth self req = Inr (Some a)"
    and "auth_data a \<noteq> []"
    and "request_method req \<noteq> ''OPTIONS''"
    and "authenticate md5_hexdigest self req w (Some a) (get_auth_password self (Some a))
           = Inr True"
    and "get_auth_roles_callback self = Some roles_cb"
  shows "authorize self (Some a) None use_all
           = (if roles_cb a = [] then Inr use_all else Inl TypeError)
       \<and> HTTPRoleAuthMixin_login_required md5_hexdigest make_response self None None use_all
             f req w
           = (if roles_cb a = []
              then (if use_all then Inr (View (f ()), w)
                    else Inr (Auth_error (fst (auth_error_callback make_response self w)),
                              snd (auth_error_callback make_response self w)))
              else Inl TypeError)"
proof -
  have az: "authorize self (Some a) None use_all
           = (if roles_cb a = [] then Inr use_all else Inl TypeError)"
    using assms(2,5) by (rule authorize_None_roles)
  have vf: "verify md5_hexdigest self req w None use_all (Some a)
              (get_auth_password self (Some a))
           = (if roles_cb a = [] then Inr use_all else Inl TypeError)"
    using assms(4) az by (simp add: verify_def)
  show ?thesis
    using az vf assms(1,3)
    by (simp add: HTTPRoleAuthMixin_login_required_def split: prod.splits)
qed

text \<open>
  A Basic role authenticator whose \<^verbatim>\<open>verify_password\<close> callback accepts everybody and
  whose identities all have the role \<open>admin\<close>: a GET request with Basic credentials
  to a view decorated with \<^verbatim>\<open>login_required()\<close> raises TypeError.
\<close>

theorem login_required_without_roles_witness:
  "authorize
     (get_auth_roles (verify_password (HTTPBasicRoleAuth_init None None) (\<lambda>u p. True))
        (\<lambda>a. [''admin'']))
     (Some \<lparr>auth_type = ''basic'', auth_data = [(''username'', ''u''), (''password'', ''p'')]\<rparr>)
     None False = Inl TypeError
   \<and> HTTPRoleAuthMixin_login_required (\<lambda>s. s)
       (\<lambda>r. \<lparr>status_code = 200, res_headers = [], res_body = []\<rparr>)
       (get_auth_roles (verify_password (HTTPBasicRoleAuth_init None None) (\<lambda>u p. True))
          (\<lambda>a. [''admin'']))
       None None False (\<lambda>u. ''page'')
       \<lparr>authorization =
          Some \<lparr>auth_type = ''basic'',
                auth_data = [(''username'', ''u''), (''password'', ''p'')]\<rparr>,
        headers = Map.empty, request_method = ''GET''\<rparr>
       \<lparr>session = Map.empty, random_str = (\<lambda>n. []), random_count = 0\<rparr> = Inl TypeError"
  using login_required_without_roles [of
      "get_auth_roles (verify_password (HTTPBasicRoleAuth_init None None) (\<lambda>u p. True))
        (\<lambda>a. [''admin''])"
      "\<lparr>authorization =
          Some \<lparr>auth_type = ''basic'',
                auth_data = [(''username'', ''u''), (''password'', ''p'')]\<rparr>,
        headers = Map.empty, request_method = ''GET''\<rparr>"
      "\<lparr>auth_type = ''basic'', auth_data = [(''username'', ''u''), (''password'', ''p'')]\<rparr>"
      "\<lambda>s. s"
      "\<lparr>session = Map.empty, random_str = (\<lambda>n. []), random_count = 0\<rparr>"
      "\<lambda>a. [''admin'']" False
      "\<lambda>r. \<lparr>status_code = 200, res_headers = [], res_body = []\<rparr>"
      "\<lambda>u. ''page''"]
  by (simp add: get_auth_def get_auth_roles_def verify_password_def HTTPBasicRoleAuth_init_def
      HTTPBasicAuth_init_def HTTPAuth_init_def lower_Basic lower_basic authenticate_def
      HTTPBasicAuth_authenticate_def)

subsection \<open>Basic authentication\<close>

text \<open>
  Claim C5: Basic authentication with neither a \<^verbatim>\<open>verify_password\<close> nor a
  \<^verbatim>\<open>hash_password\<close> callback, for credentials that are present. \<^verbatim>\<open>authenticate\<close>
  returns true if and only if the client's password and the stored secret are both not
  None and are equal: an equal secret succeeds, a password that differs from it anywhere
  fails. With the stored secret that \<^verbatim>\<open>login_required\<close> passes, the one
  \<^verbatim>\<open>get_auth_password\<close> looks up, it returns true if and only if the username is not
  empty and the lookup callback returns, for that username, the client's password.
\<close>

theorem basic_authenticate_plain:
  assumes "verify_password_callback self = None"
    and "hash_password_callback self = None"
    and "auth_data a \<noteq> []"
  shows "HTTPBasicAuth_authenticate self (Some a) stored_password
           = (\<exists>p. auth_get a ''password'' = Some p \<and> stored_password = Some p)
       \<and> HTTPBasicAuth_authenticate self (Some a) (get_auth_password self (Some a))
           = (\<exists>u p. auth_get a ''username'' = Some u \<and> u \<noteq> []
                \<and> auth_get a ''password'' = Some p \<and> get_password_callback self u = Some p)"
  using assms
  by (auto simp: HTTPBasicAuth_authenticate_def get_auth_password_def safe_str_cmp_def
      split: option.splits)

text \<open>
  The stored secret of \<open>john\<close> is \<open>hello\<close>: the password \<open>hello\<close> is accepted, its
  one-character mutation \<open>hellp\<close> is refused, and the lookup by username accepts too.
\<close>

theorem basic_authenticate_plain_witness:
  "HTTPBasicAuth_authenticate
     (get_password (HTTPBasicAuth_init None None)
        (\<lambda>u. if u = ''john'' then Some ''hello'' else None))
     (Some \<lparr>auth_type = ''basic'',
            auth_data = [(''username'', ''john''), (''password'', ''hello'')]\<rparr>)
     (Some ''hello'')
   \<and> \<not> HTTPBasicAuth_authenticate
     (get_password (HTTPBasicAuth_init None None)
        (\<lambda>u. if u = ''john'' then Some ''hello'' else None))
     (Some \<lparr>auth_type = ''basic'',
            auth_data = [(''username'', ''john''), (''password'', ''hellp'')]\<rparr>)
     (Some ''hello'')
   \<and> HTTPBasicAuth_authenticate
     (get_password (HTTPBasicAuth_init None None)
        (\<lambda>u. if u = ''john'' then Some ''hello'' else None))
     (Some \<lparr>auth_type = ''basic'',
            auth_data = [(''username'', ''john''), (''password'', ''hello'')]\<rparr>)
     (get_auth_password
        (get_password (HTTPBasicAuth_init None None)
           (\<lambda>u. if u = ''john'' then Some ''hello'' else None))
        (Some \<lparr>auth_type = ''basic'',
               auth_data = [(''username'', ''john''), (''password'', ''hello'')]\<rparr>))"
  using basic_authenticate_plain [of
      "get_password (HTTPBasicAuth_init None None)
         (\<lambda>u. if u = ''john'' then Some ''hello'' else None)"
      "\<lparr>auth_type = ''basic'',
        auth_data = [(''username'', ''john''), (''password'', ''hello'')]\<rparr>"
      "Some ''hello''"]
    basic_authenticate_plain [of
      "get_password (HTTPBasicAuth_init None None)
         (\<lambda>u. if u = ''john'' then Some ''hello'' else None)"
      "\<lparr>auth_type = ''basic'',
        auth_data = [(''username'', ''john''), (''password'', ''hellp'')]\<rparr>"
      "Some ''hello''"]
  by (simp add: get_password_def HTTPBasicAuth_init_def HTTPAuth_init_def auth_get_def)

subsection \<open>Digest authentication\<close>

text \<open>
  Claim C3: for Digest credentials whose username, realm, uri, nonce and response are
  not empty, with a stored secret that is not empty, and whose nonce and opaque the
  verifier callbacks accept, \<^verbatim>\<open>authenticate\<close> takes the stored secret as HA1 when
  \<^verbatim>\<open>use_ha1_pw\<close> is set and \<open>H(username ":" realm ":" password)\<close> otherwise, computes
  \<open>HA2 = H(method ":" uri)\<close> and \<open>H(HA1 ":" nonce ":" HA2)\<close>, and returns whether that
  equals the client's response. The value it compares is a function of the username,
  realm, password, method, uri and nonce alone, and the strings it hashes are those of
  the chain, in this order. \<open>H\<close> is the digest function the module is run with.
\<close>

theorem digest_authenticate_hash_chain:
  assumes "auth_get a ''username'' = Some u" and "u \<noteq> []"
    and "auth_get a ''realm'' = Some r" and "r \<noteq> []"
    and "auth_get a ''uri'' = Some uri" and "uri \<noteq> []"
    and "auth_get a ''nonce'' = Some nonce" and "nonce \<noteq> []"
    and "auth_get a ''response'' = Some resp" and "resp \<noteq> []"
    and "stored \<noteq> []"
    and "verify_nonce_callback self w (Some nonce)"
    and "verify_opaque_callback self w (auth_get a ''opaque'')"
  shows "HTTPDigestAuth_authenticate H self req w (Some a) (Some stored)
           = (let ha1 = (if use_ha1_pw self then stored else spec_HA1 H u r stored);
                  ha2 = spec_HA2 H (request_method req) uri;
                  expected_response = spec_expected_response H ha1 nonce ha2
              in (safe_str_cmp expected_response resp,
                  [Verify_nonce (Some nonce), Verify_opaque (auth_get a ''opaque'')]
                    @ (if use_ha1_pw self then [] else [Md5 (u @ '':'' @ r @ '':'' @ stored)])
                    @ [Md5 (request_method req @ '':'' @ uri),
                       Md5 (ha1 @ '':'' @ nonce @ '':'' @ ha2)]))"
proof -
  have ne: "auth_data a \<noteq> []"
    using assms(1) by (auto simp: auth_get_def)
  show ?thesis
    using assms ne
    by (simp add: HTTPDigestAuth_authenticate_def spec_HA1_def spec_HA2_def
        spec_expected_response_def Let_def)
qed

text \<open>
  With a digest function that only brackets its argument, the chain can be read off: the
  response \<open>h(h(john:R:hello):n1:h(GET:/))\<close> is accepted for the password \<open>hello\<close>
  when the session holds the nonce and the opaque of the credentials.
\<close>

theorem digest_authenticate_hash_chain_witness:
  "HTTPDigestAuth_authenticate (\<lambda>s. ''h('' @ s @ '')'')
     (HTTPDigestAuth_init (\<lambda>s. ''h('' @ s @ '')'') None None False)
     \<lparr>authorization = None, headers = Map.empty, request_method = ''GET''\<rparr>
     \<lparr>session = [''auth_nonce'' \<mapsto> ''n1'', ''auth_opaque'' \<mapsto> ''o1''],
      random_str = (\<lambda>n. []), random_count = 0\<rparr>
     (Some \<lparr>auth_type = ''digest'',
            auth_data = [(''username'', ''john''), (''realm'', ''R''), (''uri'', ''/''),
                         (''nonce'', ''n1''),
                         (''response'', ''h(h(john:R:hello):n1:h(GET:/))''),
                         (''opaque'', ''o1'')]\<rparr>)
     (Some ''hello'')
   = (True, [Verify_nonce (Some ''n1''), Verify_opaque (Some ''o1''), Md5 ''john:R:hello'',
             Md5 ''GET:/'', Md5 ''h(john:R:hello):n1:h(GET:/)''])"
  using digest_authenticate_hash_chain [of
      "\<lparr>auth_type = ''digest'',
        auth_data = [(''username'', ''john''), (''realm'', ''R''), (''uri'', ''/''),
                     (''nonce'', ''n1''),
                     (''response'', ''h(h(john:R:hello):n1:h(GET:/))''),
                     (''opaque'', ''o1'')]\<rparr>"
      "''john''" "''R''" "''/''" "''n1''" "''h(h(john:R:hello):n1:h(GET:/))''" "''hello''"
      "HTTPDigestAuth_init (\<lambda>s. ''h('' @ s @ '')'') None None False"
      "\<lparr>session = [''auth_nonce'' \<mapsto> ''n1'', ''auth_opaque'' \<mapsto> ''o1''],
        random_str = (\<lambda>n. []), random_count = 0\<rparr>"
      "\<lambda>s. ''h('' @ s @ '')''"
      "\<lparr>authorization = None, headers = Map.empty, request_method = ''GET''\<rparr>"]
  by (simp add: auth_get_def HTTPDigestAuth_init_def HTTPAuth_init_def default_verify_nonce_def
      default_verify_opaque_def safe_str_cmp_def spec_HA1_def spec_HA2_def
      spec_expected_response_def)

text \<open>
  Claim C4: \<^verbatim>\<open>HTTPDigestAuth.authenticate\<close> returns false when the credentials are
  absent (or empty), when one of username, realm, uri, nonce, response is empty or
  absent, when the stored secret is empty or absent, or when the nonce verifier or the
  opaque verifier returns false. In each of these cases the result is the same value
  \<open>False\<close>, nothing has been hashed, and nothing but the two verifier callbacks has been
  called. The function is total: it raises nothing.
\<close>

theorem digest_authenticate_short_circuit:
  assumes "\<not> auth_truthy auth
      \<or> \<not> truthy (auth_field auth ''username'') \<or> \<not> truthy (auth_field auth ''realm'')
      \<or> \<not> truthy (auth_field auth ''uri'') \<or> \<not> truthy (auth_field auth ''nonce'')
      \<or> \<not> truthy (auth_field auth ''response'') \<or> \<not> truthy stored
      \<or> \<not> verify_nonce_callback self w (auth_field auth ''nonce'')
      \<or> \<not> verify_opaque_callback self w (auth_field auth ''opaque'')"
  shows "fst (HTTPDigestAuth_authenticate H self req w auth stored) = False
       \<and> filter is_Md5 (snd (HTTPDigestAuth_authenticate H self req w auth stored)) = []
       \<and> set (snd (HTTPDigestAuth_authenticate H self req w auth stored))
           \<subseteq> {Verify_nonce (auth_field auth ''nonce''),
               Verify_opaque (auth_field auth ''opaque'')}"
proof (cases auth)
  case None
  then show ?thesis by (simp add: HTTPDigestAuth_authenticate_def)
next
  case (Some a)
  show ?thesis
    using assms unfolding Some
    by (auto simp: HTTPDigestAuth_authenticate_def Let_def split: option.splits)
qed

text \<open>
  Absent credentials, and credentials that are complete but carry a nonce (\<open>n1\<close>) that
  is no longer the one of the session (\<open>n2\<close>): both are refused without hashing.
\<close>

theorem digest_authenticate_short_circuit_witness:
  "fst (HTTPDigestAuth_authenticate (\<lambda>s. ''h('' @ s @ '')'')
          (HTTPDigestAuth_init (\<lambda>s. ''h('' @ s @ '')'') None None False)
          \<lparr>authorization = None, headers = Map.empty, request_method = ''GET''\<rparr>
          \<lparr>session = [''auth_nonce'' \<mapsto> ''n1'', ''auth_opaque'' \<mapsto> ''o1''],
           random_str = (\<lambda>n. []), random_count = 0\<rparr>
          None (Some ''hello'')) = False
   \<and> filter is_Md5 (snd (HTTPDigestAuth_authenticate (\<lambda>s. ''h('' @ s @ '')'')
          (HTTPDigestAuth_init (\<lambda>s. ''h('' @ s @ '')'') None None False)
          \<lparr>authorization = None, headers = Map.empty, request_method = ''GET''\<rparr>
          \<lparr>session = [''auth_nonce'' \<mapsto> ''n1'', ''auth_opaque'' \<mapsto> ''o1''],
           random_str = (\<lambda>n. []), random_count = 0\<rparr>
          None (Some ''hello''))) = []
   \<and> fst (HTTPDigestAuth_authenticate (\<lambda>s. ''h('' @ s @ '')'')
          (HTTPDigestAuth_init (\<lambda>s. ''h('' @ s @ '')'') None None False)
          \<lparr>authorization = None, headers = Map.empty, request_method = ''GET''\<rparr>
          \<lparr>session = [''auth_nonce'' \<mapsto> ''n2'', ''auth_opaque'' \<mapsto> ''o1''],
           random_str = (\<lambda>n. []), random_count = 0\<rparr>
          (Some \<lparr>auth_type = ''digest'',
                 auth_data = [(''username'', ''john''), (''realm'', ''R''), (''uri'', ''/''),
                              (''nonce'', ''n1''),
                              (''response'', ''h(h(john:R:hello):n1:h(GET:/))''),
                              (''opaque'', ''o1'')]\<rparr>)
          (Some ''hello'')) = False
   \<and> filter is_Md5 (snd (HTTPDigestAuth_authenticate (\<lambda>s. ''h('' @ s @ '')'')
          (HTTPDigestAuth_init (\<lambda>s. ''h('' @ s @ '')'') None None False)
          \<lparr>authorization = None, headers = Map.empty, request_method = ''GET''\<rparr>
          \<lparr>session = [''auth_nonce'' \<mapsto> ''n2'', ''auth_opaque'' \<mapsto> ''o1''],
           random_str = (\<lambda>n. []), random_count = 0\<rparr>
          (Some \<lparr>auth_type = ''digest'',
                 auth_data = [(''username'', ''john''), (''realm'', ''R''), (''uri'', ''/''),
                              (''nonce'', ''n1''),
                              (''response'', ''h(h(john:R:hello):n1:h(GET:/))''),
                              (''opaque'', ''o1'')]\<rparr>)
          (Some ''hello''))) = []"
proof -
  let ?H = "\<lambda>s. ''h('' @ s @ '')''"
  let ?self = "HTTPDigestAuth_init ?H None None False"
  let ?req = "\<lparr>authorization = None, headers = Map.empty, request_method = ''GET''\<rparr>"
  let ?w1 = "\<lparr>session = [''auth_nonce'' \<mapsto> ''n1'', ''auth_opaque'' \<mapsto> ''o1''],
      random_str = (\<lambda>n. []), random_count = 0\<rparr>"
  let ?w2 = "\<lparr>session = [''auth_nonce'' \<mapsto> ''n2'', ''auth_opaque'' \<mapsto> ''o1''],
      random_str = (\<lambda>n. []), random_count = 0\<rparr>"
  let ?a = "\<lparr>auth_type = ''digest'',
            auth_data = [(''username'', ''john''), (''realm'', ''R''), (''uri'', ''/''),
                         (''nonce'', ''n1''),
                         (''response'', ''h(h(john:R:hello):n1:h(GET:/))''),
                         (''opaque'', ''o1'')]\<rparr>"
  have 1: "fst (HTTPDigestAuth_authenticate ?H ?self ?req ?w1 None (Some ''hello'')) = False
     \<and> filter is_Md5 (snd (HTTPDigestAuth_authenticate ?H ?self ?req ?w1 None
          (Some ''hello''))) = []
     \<and> set (snd (HTTPDigestAuth_authenticate ?H ?self ?req ?w1 None (Some ''hello'')))
           \<subseteq> {Verify_nonce (auth_field None ''nonce''),
               Verify_opaque (auth_field None ''opaque'')}"
    by (rule digest_authenticate_short_circuit) simp
  have 2: "fst (HTTPDigestAuth_authenticate ?H ?self ?req ?w2 (Some ?a) (Some ''hello''))
       = False
     \<and> filter is_Md5 (snd (HTTPDigestAuth_authenticate ?H ?self ?req ?w2 (Some ?a)
          (Some ''hello''))) = []
     \<and> set (snd (HTTPDigestAuth_authenticate ?H ?self ?req ?w2 (Some ?a) (Some ''hello'')))
           \<subseteq> {Verify_nonce (auth_field (Some ?a) ''nonce''),
               Verify_opaque (auth_field (Some ?a) ''opaque'')}"
    by (rule digest_authenticate_short_circuit)
      (simp add: auth_get_def HTTPDigestAuth_init_def HTTPAuth_init_def
        default_verify_nonce_def safe_str_cmp_def)
  from 1 2 show ?thesis by blast
qed

subsection \<open>Credential parsing\<close>

lemma get_auth_no_scheme_error:
  "scheme self = Some s \<Longrightarrow> \<exists>r. get_auth self req = Inr r"
  by (simp add: get_auth_def Let_def split: option.splits sum.splits prod.splits)

text \<open>
  What \<^verbatim>\<open>get_auth\<close> returns. For a header that the framework's own parser does not
  recognise (\<^verbatim>\<open>request.authorization\<close> is None), a value that does not split into a
  scheme and a token yields no credentials and no error, as the same request without the
  header does. When the authenticator has a scheme, credentials whose scheme token differs
  from it after lowering both are dropped and credentials whose token equals it up to
  case are returned, for the hand-parsed header and for the framework's credentials alike;
  and \<^verbatim>\<open>get_auth\<close> then raises for no request at all.
\<close>

lemma get_auth_no_credentials:
  "(authorization req = None \<and> headers req ''Authorization'' = Some h
      \<and> length (split_None_1 h) \<noteq> 2
      \<longrightarrow> get_auth self req = Inr None
        \<and> get_auth self (req\<lparr>headers := (headers req)(''Authorization'' := None)\<rparr>)
            = Inr None)
   \<and> (scheme self = Some s \<and> authorization req = None
      \<and> headers req ''Authorization'' = Some h \<and> split_None_1 h = [t, token]
      \<longrightarrow> get_auth self req
          = (if lower t \<noteq> lower s then Inr None
             else Inr (Some \<lparr>auth_type = t, auth_data = [(''token'', token)]\<rparr>)))
   \<and> (scheme self = Some s \<and> authorization req = Some a
      \<longrightarrow> get_auth self req
          = (if lower (auth_type a) \<noteq> lower s then Inr None else Inr (Some a)))
   \<and> (scheme self = Some s \<longrightarrow> (\<exists>r. get_auth self req = Inr r))"
proof (intro conjI impI)
  assume a: "authorization req = None \<and> headers req ''Authorization'' = Some h
      \<and> length (split_None_1 h) \<noteq> 2"
  then have u: "unpack2 (split_None_1 h) = Inl ValueError"
    by (simp add: unpack2_Inl)
  from a u show "get_auth self req = Inr None"
    by (simp add: get_auth_def)
  from a show "get_auth self (req\<lparr>headers := (headers req)(''Authorization'' := None)\<rparr>)
      = Inr None"
    by (simp add: get_auth_def)
next
  assume "scheme self = Some s \<and> authorization req = None
      \<and> headers req ''Authorization'' = Some h \<and> split_None_1 h = [t, token]"
  then show "get_auth self req
          = (if lower t \<noteq> lower s then Inr None
             else Inr (Some \<lparr>auth_type = t, auth_data = [(''token'', token)]\<rparr>))"
    by (simp add: get_auth_def)
next
  assume "scheme self = Some s \<and> authorization req = Some a"
  then show "get_auth self req
      = (if lower (auth_type a) \<noteq> lower s then Inr None else Inr (Some a))"
    by (simp add: get_auth_def)
next
  assume "scheme self = Some s"
  then show "\<exists>r. get_auth self req = Inr r"
    by (rule get_auth_no_scheme_error)
qed

text \<open>
  Without credentials \<^verbatim>\<open>login_required\<close> calls \<^verbatim>\<open>authenticate(None, None)\<close>. A
  Basic authenticator hands the empty username and password to its \<^verbatim>\<open>verify_password\<close>
  callback when it has one, a token authenticator hands the empty token to its
  \<^verbatim>\<open>verify_token\<close> callback, and every other case is false.
\<close>

lemma authenticate_None:
  "cls self \<noteq> HTTPAuth \<Longrightarrow>
   authenticate md5_hexdigest self req w None None
     = Inr (if isinstance_HTTPBasicAuth (cls self)
            then (case verify_password_callback self of
                    Some verify_cb \<Rightarrow> verify_cb (Some []) (Some [])
                  | None \<Rightarrow> False)
            else if isinstance_HTTPDigestAuth (cls self) then False
            else (case verify_token_callback self of
                    Some verify_cb \<Rightarrow> verify_cb []
                  | None \<Rightarrow> False))"
  by (cases "cls self")
    (simp_all add: authenticate_def HTTPBasicAuth_authenticate_def
      HTTPDigestAuth_authenticate_def HTTPTokenAuth_authenticate_def split: option.splits)

lemma login_required_no_credentials:
  assumes "get_auth self req = Inr None" and "cls self \<noteq> HTTPAuth"
  shows "HTTPAuth_login_required md5_hexdigest make_response self f req w
     = (if request_method req \<noteq> ''OPTIONS''
           \<and> \<not> (if isinstance_HTTPBasicAuth (cls self)
                 then (case verify_password_callback self of
                         Some verify_cb \<Rightarrow> verify_cb (Some []) (Some [])
                       | None \<Rightarrow> False)
                 else if isinstance_HTTPDigestAuth (cls self) then False
                 else (case verify_token_callback self of
                         Some verify_cb \<Rightarrow> verify_cb []
                       | None \<Rightarrow> False))
        then Inr (Auth_error (fst (auth_error_callback make_response self w)),
                  snd (auth_error_callback make_response self w))
        else Inr (View (f ()), w))"
proof -
  have p: "get_auth_password self None = None"
    by (simp add: get_auth_password_def)
  show ?thesis
    by (simp add: HTTPAuth_login_required_def assms(1) p Let_def
        authenticate_None [OF assms(2)] split: prod.splits)
qed

lemma role_login_required_no_credentials:
  assumes "get_auth self req = Inr None" and "cls self \<noteq> HTTPAuth"
  shows "HTTPRoleAuthMixin_login_required md5_hexdigest make_response self None roles use_all
           f req w
     = (if request_method req \<noteq> ''OPTIONS''
        then Inr (Auth_error (fst (auth_error_callback make_response self w)),
                  snd (auth_error_callback make_response self w))
        else Inr (View (f ()), w))"
proof -
  have p: "get_auth_password self None = None"
    by (simp add: get_auth_password_def)
  have v: "verify md5_hexdigest self req w roles use_all None None = Inr False"
    by (simp add: verify_def authenticate_None [OF assms(2)] authorize_def)
  show ?thesis
    by (simp add: HTTPRoleAuthMixin_login_required_def assms(1) p Let_def v
        split: prod.splits)
qed

text \<open>
  Claim C6, as the code has it. \<^verbatim>\<open>get_auth\<close> raises on no malformed header: for a
  header that the framework's own parser does not recognise, a value without a token
  after the scheme yields no credentials, as the same request without the header does.
  When the authenticator has a scheme, credentials whose scheme token differs from it
  after lowering both are dropped, those that equal it up to case are returned, and
  \<^verbatim>\<open>get_auth\<close> raises for no request at all. When \<^verbatim>\<open>get_auth\<close> yields no credentials,
  \<^verbatim>\<open>login_required\<close> of a Basic, Digest or Token authenticator raises nothing. It
  answers with the error response, except for an OPTIONS request and except when a
  registered \<^verbatim>\<open>verify_password\<close> callback accepts the empty username and password or a
  registered \<^verbatim>\<open>verify_token\<close> callback accepts the empty token: then the view runs. The
  role mixin's \<^verbatim>\<open>login_required\<close> with roles answers with the error response for
  every request but OPTIONS.
\<close>

theorem malformed_header_handling:
  "(authorization req = None \<and> headers req ''Authorization'' = Some h
      \<and> length (split_None_1 h) \<noteq> 2
      \<longrightarrow> get_auth self req = Inr None
        \<and> get_auth self (req\<lparr>headers := (headers req)(''Authorization'' := None)\<rparr>)
            = Inr None)
   \<and> (scheme self = Some s \<and> authorization req = None
      \<and> headers req ''Authorization'' = Some h \<and> split_None_1 h = [t, token]
      \<longrightarrow> get_auth self req
          = (if lower t \<noteq> lower s then Inr None
             else Inr (Some \<lparr>auth_type = t, auth_data = [(''token'', token)]\<rparr>)))
   \<and> (scheme self = Some s \<and> authorization req = Some a
      \<longrightarrow> get_auth self req
          = (if lower (auth_type a) \<noteq> lower s then Inr None else Inr (Some a)))
   \<and> (scheme self = Some s \<longrightarrow> (\<exists>r. get_auth self req = Inr r))
   \<and> (get_auth self req = Inr None \<and> cls self \<noteq> HTTPAuth
      \<longrightarrow> HTTPAuth_login_required md5_hexdigest make_response self f req w
          = (if request_method req \<noteq> ''OPTIONS''
                \<and> \<not> (if isinstance_HTTPBasicAuth (cls self)
                      then (case verify_password_callback self of
                              Some verify_cb \<Rightarrow> verify_cb (Some []) (Some [])
                            | None \<Rightarrow> False)
                      else if isinstance_HTTPDigestAuth (cls self) then False
                      else (case verify_token_callback self of
                              Some verify_cb \<Rightarrow> verify_cb []
                            | None \<Rightarrow> False))
             then Inr (Auth_error (fst (auth_error_callback make_response self w)),
                       snd (auth_error_callback make_response self w))
             else Inr (View (f ()), w))
        \<and> HTTPRoleAuthMixin_login_required md5_hexdigest make_response self None roles
              use_all f req w
          = (if request_method req \<noteq> ''OPTIONS''
             then Inr (Auth_error (fst (auth_error_callback make_response self w)),
                       snd (auth_error_callback make_response self w))
             else Inr (View (f ()), w)))"
proof (intro conjI impI)
  assume a: "authorization req = None \<and> headers req ''Authorization'' = Some h
      \<and> length (split_None_1 h) \<noteq> 2"
  then show "get_auth self req = Inr None"
    using get_auth_no_credentials [of req h self, THEN conjunct1] by blast
  from a show "get_auth self (req\<lparr>headers := (headers req)(''Authorization'' := None)\<rparr>)
      = Inr None"
    using get_auth_no_credentials [of req h self, THEN conjunct1] by blast
next
  assume "scheme self = Some s \<and> authorization req = None
      \<and> headers req ''Authorization'' = Some h \<and> split_None_1 h = [t, token]"
  then show "get_auth self req
          = (if lower t \<noteq> lower s then Inr None
             else Inr (Some \<lparr>auth_type = t, auth_data = [(''token'', token)]\<rparr>))"
    by (simp add: get_auth_def)
next
  assume "scheme self = Some s \<and> authorization req = Some a"
  then show "get_auth self req
      = (if lower (auth_type a) \<noteq> lower s then Inr None else Inr (Some a))"
    by (simp add: get_auth_def)
next
  assume "scheme self = Some s"
  then show "\<exists>r. get_auth self req = Inr r"
    by (rule get_auth_no_scheme_error)
next
  assume a: "get_auth self req = Inr None \<and> cls self \<noteq> HTTPAuth"
  then show "HTTPAuth_login_required md5_hexdigest make_response self f req w
          = (if request_method req \<noteq> ''OPTIONS''
                \<and> \<not> (if isinstance_HTTPBasicAuth (cls self)
                      then (case verify_password_callback self of
                              Some verify_cb \<Rightarrow> verify_cb (Some []) (Some [])
                            | None \<Rightarrow> False)
                      else if isinstance_HTTPDigestAuth (cls self) then False
                      else (case verify_token_callback self of
                              Some verify_cb \<Rightarrow> verify_cb []
                            | None \<Rightarrow> False))
             then Inr (Auth_error (fst (auth_error_callback make_response self w)),
                       snd (auth_error_callback make_response self w))
             else Inr (View (f ()), w))"
    by (intro login_required_no_credentials) simp_all
  from a show "HTTPRoleAuthMixin_login_required md5_hexdigest make_response self None roles
              use_all f req w
          = (if request_method req \<noteq> ''OPTIONS''
             then Inr (Auth_error (fst (auth_error_callback make_response self w)),
                       snd (auth_error_callback make_response self w))
             else Inr (View (f ()), w))"
    by (intro role_login_required_no_credentials) simp_all
qed

text \<open>
  For a Basic authenticator the header \<open>Basic\<close> alone gives what the absent header
  gives, no credentials, and so does the header \<open>Bearer xyz\<close> of another scheme; a Bearer
  authenticator accepts the header \<open>BEARER xyz\<close>. A GET request with the header
  \<open>Basic\<close> to a view of a Basic authenticator without callbacks is answered with the
  error response.
\<close>

theorem malformed_header_handling_witness:
  "get_auth (HTTPBasicAuth_init None None)
     \<lparr>authorization = None, headers = [''Authorization'' \<mapsto> ''Basic''],
      request_method = ''GET''\<rparr>
     = Inr None
   \<and> get_auth (HTTPBasicAuth_init None None)
     \<lparr>authorization = None, headers = Map.empty, request_method = ''GET''\<rparr>
     = Inr None
   \<and> get_auth (HTTPBasicAuth_init None None)
     \<lparr>authorization = None, headers = [''Authorization'' \<mapsto> ''Bearer xyz''],
      request_method = ''GET''\<rparr>
     = Inr None
   \<and> get_auth (HTTPTokenAuth_init (Some ''Bearer'') None)
     \<lparr>authorization = None, headers = [''Authorization'' \<mapsto> ''BEARER xyz''],
      request_method = ''GET''\<rparr>
     = Inr (Some \<lparr>auth_type = ''BEARER'', auth_data = [(''token'', ''xyz'')]\<rparr>)
   \<and> HTTPAuth_login_required (\<lambda>s. s)
       (\<lambda>r. \<lparr>status_code = 200, res_headers = [], res_body = []\<rparr>)
       (HTTPBasicAuth_init None None) (\<lambda>u. ''page'')
       \<lparr>authorization = None, headers = [''Authorization'' \<mapsto> ''Basic''],
        request_method = ''GET''\<rparr>
       \<lparr>session = Map.empty, random_str = (\<lambda>n. []), random_count = 0\<rparr>
     = Inr (Auth_error
              \<lparr>status_code = 401,
               res_headers =
                 [(''WWW-Authenticate'', ''Basic realm=\"Authentication Required\"'')],
               res_body = []\<rparr>,
            \<lparr>session = Map.empty, random_str = (\<lambda>n. []), random_count = 0\<rparr>)"
proof -
  let ?basic = "HTTPBasicAuth_init None None"
  let ?token = "HTTPTokenAuth_init (Some ''Bearer'') None"
  let ?r1 = "\<lparr>authorization = None, headers = [''Authorization'' \<mapsto> ''Basic''],
      request_method = ''GET''\<rparr>"
  let ?r2 = "\<lparr>authorization = None, headers = [''Authorization'' \<mapsto> ''Bearer xyz''],
      request_method = ''GET''\<rparr>"
  let ?r3 = "\<lparr>authorization = None, headers = [''Authorization'' \<mapsto> ''BEARER xyz''],
      request_method = ''GET''\<rparr>"
  let ?w = "\<lparr>session = Map.empty, random_str = (\<lambda>n. []), random_count = 0\<rparr>"
  let ?mr = "\<lambda>r::rv. \<lparr>status_code = 200, res_headers = [], res_body = []\<rparr>"
  have sb: "scheme ?basic = Some ''Basic''"
    by (simp add: HTTPBasicAuth_init_def HTTPAuth_init_def)
  have st: "scheme ?token = Some ''Bearer''"
    by (simp add: HTTPTokenAuth_init_def HTTPAuth_init_def)
  have 1: "get_auth ?basic ?r1 = Inr None
      \<and> get_auth ?basic (?r1\<lparr>headers := (headers ?r1)(''Authorization'' := None)\<rparr>)
          = Inr None"
    by (rule malformed_header_handling [THEN conjunct1, THEN mp, of _ "''Basic''"])
      (simp add: split_Basic)
  have 2: "get_auth ?basic ?r2
      = (if lower ''Bearer'' \<noteq> lower ''Basic'' then Inr None
         else Inr (Some \<lparr>auth_type = ''Bearer'', auth_data = [(''token'', ''xyz'')]\<rparr>))"
    by (rule malformed_header_handling [THEN conjunct2, THEN conjunct1, THEN mp,
          of _ _ _ "''Bearer xyz''"])
      (simp add: sb split_Bearer_xyz)
  have 3: "get_auth ?token ?r3
      = (if lower ''BEARER'' \<noteq> lower ''Bearer'' then Inr None
         else Inr (Some \<lparr>auth_type = ''BEARER'', auth_data = [(''token'', ''xyz'')]\<rparr>))"
    by (rule malformed_header_handling [THEN conjunct2, THEN conjunct1, THEN mp,
          of _ _ _ "''BEARER xyz''"])
      (simp add: st split_BEARER_xyz)
  have 4: "get_auth ?basic
      \<lparr>authorization = None, headers = Map.empty, request_method = ''GET''\<rparr> = Inr None"
    using 1 by simp
  have 5: "get_auth ?basic ?r2 = Inr None"
    using 2 by (simp add: lower_Basic lower_Bearer)
  have 6: "get_auth ?token ?r3
      = Inr (Some \<lparr>auth_type = ''BEARER'', auth_data = [(''token'', ''xyz'')]\<rparr>)"
    using 3 by (simp add: lower_Bearer lower_BEARER)
  have k: "cls ?basic = HTTPBasicAuth" "verify_password_callback ?basic = None"
    by (simp_all add: HTTPBasicAuth_init_def HTTPAuth_init_def)
  have c: "get_auth ?basic ?r1 = Inr None \<and> cls ?basic \<noteq> HTTPAuth"
    using 1 by (simp add: k)
  have e: "auth_error_callback ?mr ?basic ?w
      = (\<lparr>status_code = 401,
          res_headers = [(''WWW-Authenticate'', ''Basic realm=\"Authentication Required\"'')],
          res_body = []\<rparr>, ?w)"
    by (simp add: auth_error_callback_def error_handler_decorated_def Headers_keys_def
        authenticate_header_def HTTPAuth_authenticate_header_def HTTPBasicAuth_init_def
        HTTPAuth_init_def)
  have 7: "HTTPAuth_login_required (\<lambda>s. s) ?mr ?basic (\<lambda>u. ''page'') ?r1 ?w
      = Inr (Auth_error
              \<lparr>status_code = 401,
               res_headers =
                 [(''WWW-Authenticate'', ''Basic realm=\"Authentication Required\"'')],
               res_body = []\<rparr>, ?w)"
    using malformed_header_handling [THEN conjunct2, THEN conjunct2, THEN conjunct2,
        THEN conjunct2, THEN mp, OF c, THEN conjunct1,
        of "\<lambda>s. s" ?mr "\<lambda>u. ''page''" ?w]
    by (simp add: e k)
  from 1 4 5 6 7 show ?thesis
    by blast
qed

text \<open>
  Claim C6 as it is stated fails where it concludes that authentication fails: a Basic
  authenticator whose \<^verbatim>\<open>verify_password\<close> callback accepts everybody runs the view for
  a GET request with the header \<open>Basic\<close>, which carries no token.
\<close>

theorem malformed_header_verify_callback_counterexample:
  "HTTPAuth_login_required (\<lambda>s. s)
     (\<lambda>r. \<lparr>status_code = 200, res_headers = [], res_body = []\<rparr>)
     (verify_password (HTTPBasicAuth_init None None) (\<lambda>u p. True))
     (\<lambda>u. ''page'')
     \<lparr>authorization = None, headers = [''Authorization'' \<mapsto> ''Basic''],
      request_method = ''GET''\<rparr>
     \<lparr>session = Map.empty, random_str = (\<lambda>n. []), random_count = 0\<rparr>
   = Inr (View ''page'', \<lparr>session = Map.empty, random_str = (\<lambda>n. []), random_count = 0\<rparr>)"
  by (simp add: HTTPAuth_login_required_def get_auth_def split_Basic get_auth_password_def
      authenticate_def HTTPBasicAuth_authenticate_def verify_password_def
      HTTPBasicAuth_init_def HTTPAuth_init_def)

subsection \<open>Multi-scheme dispatch\<close>

lemma first_with_scheme_None:
  "(first_with_scheme s auths = None) = (\<forall>a \<in> set auths. scheme a \<noteq> Some s)"
  by (induction auths) auto

lemma first_with_scheme_mem:
  "first_with_scheme s auths = Some a \<Longrightarrow> a \<in> set auths"
  by (induction auths) (auto split: if_splits)

lemma first_with_scheme_first:
  assumes "i < length auths" and "scheme (auths ! i) = Some s"
    and "\<forall>j < i. scheme (auths ! j) \<noteq> Some s"
  shows "first_with_scheme s auths = Some (auths ! i)"
  using assms
proof (induction auths arbitrary: i)
  case Nil
  then show ?case by simp
next
  case (Cons x xs)
  show ?case
  proof (cases i)
    case 0
    with Cons.prems show ?thesis by simp
  next
    case (Suc k)
    with Cons.prems have "scheme x \<noteq> Some s" by auto
    moreover have "first_with_scheme s xs = Some (xs ! k)"
      using Cons.prems Suc by (intro Cons.IH) auto
    ultimately show ?thesis using Suc by simp
  qed
qed

lemma selected_auth_mem:
  "selected_auth self req \<in> set (main_auth self # additional_auth self)"
  by (auto simp: selected_auth_def dest: first_with_scheme_mem split: option.splits sum.splits)

text \<open>
  Claim C7: \<^verbatim>\<open>selected_auth\<close>. When the header splits into a scheme and credentials,
  the result is the additional authenticator at the least position whose scheme is
  exactly the header's scheme token; when no additional authenticator has that scheme,
  when the header does not split into two parts, and when there is no header, the result
  is the main authenticator.
\<close>

theorem selected_auth_dispatch:
  "(headers req ''Authorization'' = Some h \<and> split_None_1 h = [s, creds]
      \<and> i < length (additional_auth self) \<and> scheme (additional_auth self ! i) = Some s
      \<and> (\<forall>j < i. scheme (additional_auth self ! j) \<noteq> Some s)
      \<longrightarrow> selected_auth self req = additional_auth self ! i)
   \<and> (headers req ''Authorization'' = Some h \<and> split_None_1 h = [s, creds]
      \<and> (\<forall>a \<in> set (additional_auth self). scheme a \<noteq> Some s)
      \<longrightarrow> selected_auth self req = main_auth self)
   \<and> (headers req ''Authorization'' = Some h \<and> length (split_None_1 h) \<noteq> 2
      \<longrightarrow> selected_auth self req = main_auth self)
   \<and> (headers req ''Authorization'' = None \<longrightarrow> selected_auth self req = main_auth self)"
proof (intro conjI impI)
  assume a: "headers req ''Authorization'' = Some h \<and> split_None_1 h = [s, creds]
      \<and> i < length (additional_auth self) \<and> scheme (additional_auth self ! i) = Some s
      \<and> (\<forall>j < i. scheme (additional_auth self ! j) \<noteq> Some s)"
  then have "first_with_scheme s (additional_auth self) = Some (additional_auth self ! i)"
    by (intro first_with_scheme_first) auto
  with a show "selected_auth self req = additional_auth self ! i"
    by (simp add: selected_auth_def)
next
  assume a: "headers req ''Authorization'' = Some h \<and> split_None_1 h = [s, creds]
      \<and> (\<forall>a \<in> set (additional_auth self). scheme a \<noteq> Some s)"
  then have "first_with_scheme s (additional_auth self) = None"
    by (simp add: first_with_scheme_None)
  with a show "selected_auth self req = main_auth self"
    by (simp add: selected_auth_def)
next
  assume a: "headers req ''Authorization'' = Some h \<and> length (split_None_1 h) \<noteq> 2"
  then have "unpack2 (split_None_1 h) = Inl ValueError"
    by (simp add: unpack2_Inl)
  with a show "selected_auth self req = main_auth self"
    by (simp add: selected_auth_def)
next
  assume "headers req ''Authorization'' = None"
  then show "selected_auth self req = main_auth self"
    by (simp add: selected_auth_def)
qed

text \<open>
  A Basic authenticator as the main one and a Bearer token authenticator beside it: the
  header \<open>Bearer xyz\<close> selects the token authenticator; \<open>Basic abc\<close>, the header
  \<open>Basic\<close> without a token and the absent header select the main one.
\<close>

theorem selected_auth_dispatch_witness:
  "selected_auth
     (MultiAuth_init (HTTPBasicAuth_init None None) [HTTPTokenAuth_init (Some ''Bearer'') None])
     \<lparr>authorization = None, headers = [''Authorization'' \<mapsto> ''Bearer xyz''],
      request_method = ''GET''\<rparr>
     = HTTPTokenAuth_init (Some ''Bearer'') None
   \<and> selected_auth
     (MultiAuth_init (HTTPBasicAuth_init None None) [HTTPTokenAuth_init (Some ''Bearer'') None])
     \<lparr>authorization = None, headers = [''Authorization'' \<mapsto> ''Basic abc''],
      request_method = ''GET''\<rparr>
     = HTTPBasicAuth_init None None
   \<and> selected_auth
     (MultiAuth_init (HTTPBasicAuth_init None None) [HTTPTokenAuth_init (Some ''Bearer'') None])
     \<lparr>authorization = None, headers = [''Authorization'' \<mapsto> ''Basic''],
      request_method = ''GET''\<rparr>
     = HTTPBasicAuth_init None None
   \<and> selected_auth
     (MultiAuth_init (HTTPBasicAuth_init None None) [HTTPTokenAuth_init (Some ''Bearer'') None])
     \<lparr>authorization = None, headers = Map.empty, request_method = ''GET''\<rparr>
     = HTTPBasicAuth_init None None"
  using selected_auth_dispatch [of
      "\<lparr>authorization = None, headers = [''Authorization'' \<mapsto> ''Bearer xyz''],
        request_method = ''GET''\<rparr>"
      "''Bearer xyz''" "''Bearer''" "''xyz''" 0
      "MultiAuth_init (HTTPBasicAuth_init None None)
         [HTTPTokenAuth_init (Some ''Bearer'') None]"]
    selected_auth_dispatch [of
      "\<lparr>authorization = None, headers = [''Authorization'' \<mapsto> ''Basic abc''],
        request_method = ''GET''\<rparr>"
      "''Basic abc''" "''Basic''" "''abc''" 0
      "MultiAuth_init (HTTPBasicAuth_init None None)
         [HTTPTokenAuth_init (Some ''Bearer'') None]"]
    selected_auth_dispatch [of
      "\<lparr>authorization = None, headers = [''Authorization'' \<mapsto> ''Basic''],
        request_method = ''GET''\<rparr>"
      "''Basic''" "''Basic''" "''abc''" 0
      "MultiAuth_init (HTTPBasicAuth_init None None)
         [HTTPTokenAuth_init (Some ''Bearer'') None]"]
    selected_auth_dispatch [of
      "\<lparr>authorization = None, headers = Map.empty, request_method = ''GET''\<rparr>"
      "''Basic''" "''Basic''" "''abc''" 0
      "MultiAuth_init (HTTPBasicAuth_init None None)
         [HTTPTokenAuth_init (Some ''Bearer'') None]"]
  by (simp add: split_Bearer_xyz split_Basic_abc split_Basic MultiAuth_init_def
      HTTPTokenAuth_init_def HTTPAuth_init_def HTTPBasicAuth_init_def)

lemma check_role_auths_iff:
  "check_role_auths auths
     = (if \<forall>a \<in> set auths. isinstance_HTTPRoleAuthMixin (cls a) then Inr ()
        else Inl TypeError)"
  by (induction auths) auto

text \<open>
  Claim C8: \<^verbatim>\<open>MultiRoleAuth.__init__\<close> raises TypeError when the main authenticator or
  one of the additional ones is no role authenticator, and otherwise constructs the
  dispatcher with the authenticators it was given. Whatever a constructed dispatcher
  selects for a request is therefore a role authenticator, and its \<^verbatim>\<open>login_required\<close>
  with roles is the role mixin's \<^verbatim>\<open>login_required\<close> of the selected authenticator: the
  call with keywords that only the mixin accepts does not fail at request time.
\<close>

theorem MultiRoleAuth_init_checks_roles:
  "MultiRoleAuth_init main_auth0 args
     = (if \<forall>a \<in> set (main_auth0 # args). isinstance_HTTPRoleAuthMixin (cls a)
        then Inr \<lparr>main_auth = main_auth0, additional_auth = args\<rparr>
        else Inl TypeError)
   \<and> (MultiRoleAuth_init main_auth0 args = Inr m
      \<longrightarrow> isinstance_HTTPRoleAuthMixin (cls (selected_auth m req))
        \<and> MultiRoleAuth_login_required md5_hexdigest make_response m None roles use_all f req w
          = HTTPRoleAuthMixin_login_required md5_hexdigest make_response (selected_auth m req)
              None roles use_all f req w)"
proof (intro conjI impI)
  show "MultiRoleAuth_init main_auth0 args
     = (if \<forall>a \<in> set (main_auth0 # args). isinstance_HTTPRoleAuthMixin (cls a)
        then Inr \<lparr>main_auth = main_auth0, additional_auth = args\<rparr>
        else Inl TypeError)"
    by (simp add: MultiRoleAuth_init_def check_role_auths_iff MultiAuth_init_def
        del: check_role_auths.simps)
next
  assume ok: "MultiRoleAuth_init main_auth0 args = Inr m"
  then have all: "\<forall>a \<in> set (main_auth m # additional_auth m).
      isinstance_HTTPRoleAuthMixin (cls a)"
    by (auto simp: MultiRoleAuth_init_def check_role_auths_iff MultiAuth_init_def
        simp del: check_role_auths.simps split: if_splits)
  show r: "isinstance_HTTPRoleAuthMixin (cls (selected_auth m req))"
    using all selected_auth_mem [of m req] by blast
  show "MultiRoleAuth_login_required md5_hexdigest make_response m None roles use_all f req w
          = HTTPRoleAuthMixin_login_required md5_hexdigest make_response (selected_auth m req)
              None roles use_all f req w"
    using r by (simp add: MultiRoleAuth_login_required_def)
qed

text \<open>
  A plain token authenticator beside a Basic role authenticator, and a plain Basic
  authenticator as the main one, are refused; two role authenticators are accepted, and
  the authenticator selected for a Bearer request is a role authenticator.
\<close>

theorem MultiRoleAuth_init_checks_roles_witness:
  "MultiRoleAuth_init (HTTPBasicRoleAuth_init None None)
     [HTTPTokenAuth_init (Some ''Bearer'') None] = Inl TypeError
   \<and> MultiRoleAuth_init (HTTPBasicAuth_init None None)
     [HTTPTokenRoleAuth_init (Some ''Bearer'') None] = Inl TypeError
   \<and> MultiRoleAuth_init (HTTPBasicRoleAuth_init None None)
     [HTTPTokenRoleAuth_init (Some ''Bearer'') None]
     = Inr \<lparr>main_auth = HTTPBasicRoleAuth_init None None,
            additional_auth = [HTTPTokenRoleAuth_init (Some ''Bearer'') None]\<rparr>
   \<and> isinstance_HTTPRoleAuthMixin (cls (selected_auth
        \<lparr>main_auth = HTTPBasicRoleAuth_init None None,
          additional_auth = [HTTPTokenRoleAuth_init (Some ''Bearer'') None]\<rparr>
        \<lparr>authorization = None, headers = [''Authorization'' \<mapsto> ''Bearer xyz''],
          request_method = ''GET''\<rparr>))"
proof -
  have c1: "cls (HTTPBasicRoleAuth_init None None) = HTTPBasicRoleAuth"
    by (simp add: HTTPBasicRoleAuth_init_def)
  have c2: "cls (HTTPTokenAuth_init (Some ''Bearer'') None) = HTTPTokenAuth"
    by (simp add: HTTPTokenAuth_init_def)
  have c3: "cls (HTTPBasicAuth_init None None) = HTTPBasicAuth"
    by (simp add: HTTPBasicAuth_init_def)
  have c4: "cls (HTTPTokenRoleAuth_init (Some ''Bearer'') None) = HTTPTokenRoleAuth"
    by (simp add: HTTPTokenRoleAuth_init_def)
  have a: "MultiRoleAuth_init (HTTPBasicRoleAuth_init None None)
             [HTTPTokenAuth_init (Some ''Bearer'') None] = Inl TypeError"
    using MultiRoleAuth_init_checks_roles [of "HTTPBasicRoleAuth_init None None"
        "[HTTPTokenAuth_init (Some ''Bearer'') None]", THEN conjunct1]
    by (simp add: c1 c2)
  have b: "MultiRoleAuth_init (HTTPBasicAuth_init None None)
             [HTTPTokenRoleAuth_init (Some ''Bearer'') None] = Inl TypeError"
    using MultiRoleAuth_init_checks_roles [of "HTTPBasicAuth_init None None"
        "[HTTPTokenRoleAuth_init (Some ''Bearer'') None]", THEN conjunct1]
    by (simp add: c3 c4)
  have c: "MultiRoleAuth_init (HTTPBasicRoleAuth_init None None)
             [HTTPTokenRoleAuth_init (Some ''Bearer'') None]
           = Inr \<lparr>main_auth = HTTPBasicRoleAuth_init None None,
                  additional_auth = [HTTPTokenRoleAuth_init (Some ''Bearer'') None]\<rparr>"
    using MultiRoleAuth_init_checks_roles [of "HTTPBasicRoleAuth_init None None"
        "[HTTPTokenRoleAuth_init (Some ''Bearer'') None]", THEN conjunct1]
    by (simp add: c1 c4)
  have d: "isinstance_HTTPRoleAuthMixin (cls (selected_auth
        \<lparr>main_auth = HTTPBasicRoleAuth_init None None,
          additional_auth = [HTTPTokenRoleAuth_init (Some ''Bearer'') None]\<rparr>
        \<lparr>authorization = None, headers = [''Authorization'' \<mapsto> ''Bearer xyz''],
          request_method = ''GET''\<rparr>))"
    using MultiRoleAuth_init_checks_roles [THEN conjunct2, THEN mp, OF c, THEN conjunct1] .
  from a b c d show ?thesis by blast
qed

subsection \<open>The error handler\<close>

lemma Headers_get_set: "Headers_get (Headers_set hs key v) key = Some v"
  by (induction hs key v rule: Headers_set.induct) (auto simp: Headers_get_def)

lemma Headers_set_single:
  "(k, x) \<in> set (Headers_set hs key v) \<Longrightarrow> lower k = lower key \<Longrightarrow> (k, x) = (key, v)"
  by (induction hs key v rule: Headers_set.induct) (auto split: if_splits)

text \<open>
  The response of the function that \<^verbatim>\<open>error_handler\<close> builds around the error
  callback \<open>f\<close>. Its status code is 401 when the callback's response has the code 200 and
  the callback's code otherwise. When the names of the callback's headers include
  \<open>WWW-Authenticate\<close> in exactly this spelling, the headers are the callback's,
  unchanged, and no challenge is computed; otherwise the header \<open>WWW-Authenticate\<close> is
  set to the authenticator's challenge string. The body is the callback's.
\<close>

lemma error_handler_response:
  "status_code (fst (error_handler_decorated make_response self f w))
     = (if status_code (make_response (f ())) = 200 then 401
        else status_code (make_response (f ())))
   \<and> res_body (fst (error_handler_decorated make_response self f w))
     = res_body (make_response (f ()))
   \<and> (''WWW-Authenticate'' \<in> set (Headers_keys (res_headers (make_response (f ()))))
      \<longrightarrow> res_headers (fst (error_handler_decorated make_response self f w))
            = res_headers (make_response (f ()))
        \<and> snd (error_handler_decorated make_response self f w) = w)
   \<and> (''WWW-Authenticate'' \<notin> set (Headers_keys (res_headers (make_response (f ()))))
      \<longrightarrow> Headers_get (res_headers (fst (error_handler_decorated make_response self f w)))
              ''WWW-Authenticate''
            = Some (fst (authenticate_header self w))
        \<and> res_headers (fst (error_handler_decorated make_response self f w))
            = Headers_set (res_headers (make_response (f ()))) ''WWW-Authenticate''
                (fst (authenticate_header self w))
        \<and> snd (error_handler_decorated make_response self f w)
            = snd (authenticate_header self w))"
  by (simp add: error_handler_decorated_def Let_def Headers_get_set split: prod.splits)

text \<open>
  A Basic authenticator with the default error callback answers 401 with the challenge
  \<open>Basic realm="Authentication Required"\<close>; a callback that answers 403 with its own
  \<open>WWW-Authenticate\<close> header keeps both.
\<close>

lemma error_handler_response_examples:
  "fst (error_handler_decorated
          (\<lambda>r. case r of Rv_str s \<Rightarrow> \<lparr>status_code = 200, res_headers = [], res_body = s\<rparr>
                | Rv_response res \<Rightarrow> res)
          (HTTPBasicAuth_init None None) default_auth_error
          \<lparr>session = Map.empty, random_str = (\<lambda>n. []), random_count = 0\<rparr>)
     = \<lparr>status_code = 401,
        res_headers = [(''WWW-Authenticate'', ''Basic realm=\"Authentication Required\"'')],
        res_body = ''Unauthorized Access''\<rparr>
   \<and> fst (error_handler_decorated
          (\<lambda>r. case r of Rv_str s \<Rightarrow> \<lparr>status_code = 200, res_headers = [], res_body = s\<rparr>
                | Rv_response res \<Rightarrow> res)
          (HTTPBasicAuth_init None None)
          (\<lambda>u. Rv_response \<lparr>status_code = 403,
                               res_headers = [(''WWW-Authenticate'', ''Custom'')],
                               res_body = ''no''\<rparr>)
          \<lparr>session = Map.empty, random_str = (\<lambda>n. []), random_count = 0\<rparr>)
     = \<lparr>status_code = 403, res_headers = [(''WWW-Authenticate'', ''Custom'')],
        res_body = ''no''\<rparr>"
proof -
  let ?mr = "\<lambda>r. case r of Rv_str s \<Rightarrow> \<lparr>status_code = 200, res_headers = [], res_body = s\<rparr>
                | Rv_response res \<Rightarrow> res"
  let ?self = "HTTPBasicAuth_init None None"
  let ?w = "\<lparr>session = Map.empty, random_str = (\<lambda>n. []), random_count = 0\<rparr>"
  let ?f = "\<lambda>u::unit. Rv_response \<lparr>status_code = 403,
                               res_headers = [(''WWW-Authenticate'', ''Custom'')],
                               res_body = ''no''\<rparr>"
  have h: "authenticate_header ?self ?w = (''Basic realm=\"Authentication Required\"'', ?w)"
    by (simp add: authenticate_header_def HTTPAuth_authenticate_header_def
        HTTPBasicAuth_init_def HTTPAuth_init_def)
  have 1: "fst (error_handler_decorated ?mr ?self default_auth_error ?w)
     = \<lparr>status_code = 401,
        res_headers = [(''WWW-Authenticate'', ''Basic realm=\"Authentication Required\"'')],
        res_body = ''Unauthorized Access''\<rparr>"
    using error_handler_response [of ?mr ?self default_auth_error ?w]
    by (cases "fst (error_handler_decorated ?mr ?self default_auth_error ?w)")
      (simp add: h default_auth_error_def Headers_keys_def)
  have 2: "fst (error_handler_decorated ?mr ?self ?f ?w)
     = \<lparr>status_code = 403, res_headers = [(''WWW-Authenticate'', ''Custom'')],
        res_body = ''no''\<rparr>"
    using error_handler_response [of ?mr ?self ?f ?w]
    by (cases "fst (error_handler_decorated ?mr ?self ?f ?w)")
      (simp add: Headers_keys_def)
  from 1 2 show ?thesis by blast
qed

lemma lower_www_authenticate: "lower ''www-authenticate'' = ''www-authenticate''"
  by code_simp

lemma lower_WWW_Authenticate: "lower ''WWW-Authenticate'' = ''www-authenticate''"
  by code_simp

text \<open>
  Claim C9, at the input where the code departs from it: the error callback answers with
  a response that already carries the header, stored under the name
  \<open>www-authenticate\<close>. The test \<^verbatim>\<open>'WWW-Authenticate' not in res.headers.keys()\<close>
  compares the stored names exactly and so finds none, and the assignment
  \<^verbatim>\<open>res.headers['WWW-Authenticate'] = ...\<close> replaces the entry of that name up to
  case: the callback's value \<open>Custom\<close> is lost and the response carries the
  authenticator's challenge instead.
\<close>

theorem error_handler_lowercase_header_overwritten:
  "fst (error_handler_decorated
          (\<lambda>r. case r of Rv_str s \<Rightarrow> \<lparr>status_code = 200, res_headers = [], res_body = s\<rparr>
                | Rv_response res \<Rightarrow> res)
          (HTTPBasicAuth_init None None)
          (\<lambda>u. Rv_response \<lparr>status_code = 401,
                               res_headers = [(''www-authenticate'', ''Custom'')],
                               res_body = ''no''\<rparr>)
          \<lparr>session = Map.empty, random_str = (\<lambda>n. []), random_count = 0\<rparr>)
     = \<lparr>status_code = 401,
        res_headers = [(''WWW-Authenticate'', ''Basic realm=\"Authentication Required\"'')],
        res_body = ''no''\<rparr>"
  by (simp add: error_handler_decorated_def Headers_keys_def authenticate_header_def
      HTTPAuth_authenticate_header_def HTTPBasicAuth_init_def HTTPAuth_init_def
      lower_www_authenticate lower_WWW_Authenticate)

end
